theory Spec2Isabelle
  imports Complex_Main
begin

section \<open>The mass-spring physics engine (class PhysicsEngine)\<close>

text \<open>
  A shallow embedding of the class \<^verbatim>\<open>PhysicsEngine\<close>. JavaScript numbers are modelled
  as real numbers: rounding, \<^verbatim>\<open>NaN\<close> and \<^verbatim>\<open>Infinity\<close> are not represented, so a
  statement about a quotient carries the hypothesis that the divisor is not zero
  (HOL's \<open>x / 0\<close> is \<open>0\<close>, JavaScript's is \<^verbatim>\<open>NaN\<close> or \<^verbatim>\<open>Infinity\<close>).

  The engine's arrays hold objects that are shared by reference: a spring and a
  constraint point to the mass objects of \<^verbatim>\<open>this.masses\<close>. The array \<^verbatim>\<open>this.masses\<close>
  is only ever rebuilt as a whole (in \<^verbatim>\<open>parsePhysicsData\<close>), so the index of a mass in
  it is its address: springs and constraints hold indices, and every in-place
  mutation of a mass object is an update of the list at that index.
\<close>

subsection \<open>Data\<close>

record vec3 =
  vec_x :: real
  vec_y :: real
  vec_z :: real

definition zero3 :: vec3 where
  "zero3 = \<lparr>vec_x = 0, vec_y = 0, vec_z = 0\<rparr>"

text \<open>A vertex of the input topology: \<^verbatim>\<open>{ id, x, y, z, group, type, weight }\<close>.\<close>

record vertex =
  v_id :: string
  v_x :: real
  v_y :: real
  v_z :: real
  v_group :: string
  v_type :: string
  v_weight :: real

text \<open>
  The input topology. \<open>muscleTension\<close> is the value of the optional chain
  \<^verbatim>\<open>meshData.physics?.springs?.muscleTension\<close> (\<open>None\<close> when any link is absent);
  \<open>jointConstraints\<close> is the truthiness of
  \<^verbatim>\<open>meshData.metadata?.biomechanical?.jointConstraints\<close>. An edge is the pair
  \<^verbatim>\<open>(edge[0], edge[1])\<close>.
\<close>

record meshData =
  vertices :: "vertex list"
  edges :: "(string \<times> string) list"
  muscleTension :: "real option"
  jointConstraints :: bool

record mass_point =
  m_id :: string
  position :: vec3
  originalPosition :: vec3
  velocity :: vec3
  force :: vec3
  mass :: real
  fixed :: bool
  m_group :: string
  m_type :: string

record spring =
  s_mass1 :: nat
  s_mass2 :: nat
  restLength :: real
  s_stiffness :: real
  s_damping :: real

text \<open>A constraint object is tagged by its \<^verbatim>\<open>type\<close> field: \<^verbatim>\<open>'distance'\<close> or
  \<^verbatim>\<open>'collision'\<close>.\<close>

datatype constraint =
    is_Distance: Distance (c_mass1: nat) (c_mass2: nat) (c_distance: real) (c_stiffness: real)
  | is_Collision: Collision (c_mass: nat) (c_groundY: real) (c_restitution: real)

record engine =
  gravity :: real
  damping :: real
  stiffness :: real
  enabled :: bool
  timeStep :: real
  springs :: "spring list"
  masses :: "mass_point list"
  constraints :: "constraint list"
  originalPositions :: "string \<rightharpoonup> vec3"

text \<open>One entry of the list returned by \<^verbatim>\<open>getMassPositions\<close>.\<close>

record snapshot =
  snap_id :: string
  snap_position :: vec3

text \<open>The object returned by \<^verbatim>\<open>getPhysicsData\<close>.\<close>

record physicsData =
  pd_enabled :: bool
  pd_gravity :: real
  pd_damping :: real
  pd_stiffness :: real
  massCount :: nat
  springCount :: nat
  constraintCount :: nat

subsection \<open>Helpers of the JavaScript runtime\<close>

text \<open>\<^verbatim>\<open>array.find(m => m.id === id)\<close>: the first mass with that id, as its index.\<close>

fun findMass :: "mass_point list \<Rightarrow> string \<Rightarrow> nat option" where
  "findMass [] k = None"
| "findMass (m # ms) k = (if m_id m = k then Some 0 else map_option Suc (findMass ms k))"

text \<open>\<^verbatim>\<open>s.includes(sub)\<close>: \<open>sub\<close> occurs in \<open>s\<close> as a contiguous substring.\<close>

fun str_includes :: "string \<Rightarrow> string \<Rightarrow> bool" where
  "str_includes [] sub = (sub = [])"
| "str_includes (c # cs) sub = (take (length sub) (c # cs) = sub \<or> str_includes cs sub)"

text \<open>\<^verbatim>\<open>Math.sqrt(dx*dx + dy*dy + dz*dz)\<close>.\<close>

definition dist3 :: "real \<Rightarrow> real \<Rightarrow> real \<Rightarrow> real" where
  "dist3 dx dy dz = sqrt (dx * dx + dy * dy + dz * dz)"

subsection \<open>Construction\<close>

definition constructor :: engine where
  "constructor = \<lparr>gravity = 9.8, damping = 0.95, stiffness = 0.15, enabled = False,
     timeStep = 1 / 60, springs = [], masses = [], constraints = [],
     originalPositions = Map.empty\<rparr>"

definition mkMass :: "vertex \<Rightarrow> mass_point" where
  "mkMass v = \<lparr>m_id = v_id v,
     position = \<lparr>vec_x = v_x v, vec_y = v_y v, vec_z = v_z v\<rparr>,
     originalPosition = \<lparr>vec_x = v_x v, vec_y = v_y v, vec_z = v_z v\<rparr>,
     velocity = \<lparr>vec_x = 0, vec_y = 0, vec_z = 0\<rparr>,
     force = \<lparr>vec_x = 0, vec_y = 0, vec_z = 0\<rparr>,
     mass = v_weight v * 10,
     fixed = (v_type v = ''joint'' \<or> str_includes (v_group v) ''head''),
     m_group = v_group v,
     m_type = v_type v\<rparr>"

text \<open>\<^verbatim>\<open>this.originalPositions.set(vertex.id, ...)\<close> for each vertex in turn: a later
  vertex with the same id overwrites the entry.\<close>

fun setOriginalPositions :: "(string \<rightharpoonup> vec3) \<Rightarrow> vertex list \<Rightarrow> (string \<rightharpoonup> vec3)" where
  "setOriginalPositions op [] = op"
| "setOriginalPositions op (v # vs) =
     setOriginalPositions (op(v_id v \<mapsto> \<lparr>vec_x = v_x v, vec_y = v_y v, vec_z = v_z v\<rparr>)) vs"

text \<open>\<^verbatim>\<open>(meshData.physics?.springs?.muscleTension || 0.3)\<close>: the number \<open>0\<close> is falsy.\<close>

definition tensionOrDefault :: "real option \<Rightarrow> real" where
  "tensionOrDefault t = (case t of None \<Rightarrow> 0.3 | Some u \<Rightarrow> if u = 0 then 0.3 else u)"

text \<open>The body of the loop over the edges: the spring that is pushed, if any.\<close>

definition mkSpring :: "mass_point list \<Rightarrow> real option \<Rightarrow> real \<Rightarrow> string \<times> string \<Rightarrow> spring option" where
  "mkSpring ms t k edge =
     (case findMass ms (fst edge) of
        None \<Rightarrow> None
      | Some i \<Rightarrow>
          (case findMass ms (snd edge) of
             None \<Rightarrow> None
           | Some j \<Rightarrow>
               (let dx = vec_x (position (ms ! j)) - vec_x (position (ms ! i));
                    dy = vec_y (position (ms ! j)) - vec_y (position (ms ! i));
                    dz = vec_z (position (ms ! j)) - vec_z (position (ms ! i));
                    len = dist3 dx dy dz
                in Some \<lparr>s_mass1 = i, s_mass2 = j, restLength = len,
                          s_stiffness = tensionOrDefault t * k, s_damping = 0.1\<rparr>)))"

definition jointConstraintTable :: "(string \<times> string \<times> real) list" where
  "jointConstraintTable =
     [(''head_top'', ''neck_top_center'', 15),
      (''head_chin'', ''neck_top_front'', 8),
      (''shoulder_left_top'', ''clavicle_left'', 12),
      (''shoulder_right_top'', ''clavicle_right'', 12),
      (''hip_left'', ''waist_left'', 10),
      (''hip_right'', ''waist_right'', 10),
      (''neck_base_center'', ''spine_center'', 30),
      (''spine_center'', ''waist_center_front'', 15)]"

definition mkJointConstraint :: "mass_point list \<Rightarrow> string \<times> string \<times> real \<Rightarrow> constraint option" where
  "mkJointConstraint ms row =
     (case row of (id1, id2, d) \<Rightarrow>
        (case findMass ms id1 of
           None \<Rightarrow> None
         | Some i \<Rightarrow>
             (case findMass ms id2 of
                None \<Rightarrow> None
              | Some j \<Rightarrow> Some (Distance i j d 0.9))))"

definition addJointConstraints :: "engine \<Rightarrow> engine" where
  "addJointConstraints e =
     e\<lparr>constraints := constraints e @ List.map_filter (mkJointConstraint (masses e)) jointConstraintTable\<rparr>"

definition addCollisionConstraints :: "engine \<Rightarrow> engine" where
  "addCollisionConstraints e =
     (let groundY = - 50 in
      e\<lparr>constraints := constraints e @
          map (\<lambda>i. Collision i groundY 0.7)
            (filter (\<lambda>i. \<not> fixed (masses e ! i) \<and> vec_y (position (masses e ! i)) < groundY)
               [0 ..< length (masses e)])\<rparr>)"

definition parsePhysicsData :: "engine \<Rightarrow> meshData \<Rightarrow> engine" where
  "parsePhysicsData e md =
     (let ms = map mkMass (vertices md);
          e1 = e\<lparr>masses := ms,
                 springs := List.map_filter (mkSpring ms (muscleTension md) (stiffness e)) (edges md),
                 constraints := [],
                 originalPositions := setOriginalPositions Map.empty (vertices md)\<rparr>;
          e2 = (if jointConstraints md then addJointConstraints e1 else e1)
      in addCollisionConstraints e2)"

text \<open>\<^verbatim>\<open>init(meshData)\<close> returns at once on a falsy argument.\<close>

definition init :: "engine \<Rightarrow> meshData option \<Rightarrow> engine" where
  "init e md = (case md of None \<Rightarrow> e | Some d \<Rightarrow> parsePhysicsData e d)"

subsection \<open>The phases of a step\<close>

definition applyGravity :: "real \<Rightarrow> mass_point \<Rightarrow> mass_point" where
  "applyGravity g m =
     (if \<not> fixed m then m\<lparr>force := (force m)\<lparr>vec_y := vec_y (force m) - mass m * g\<rparr>\<rparr> else m)"

text \<open>The body of the loop over the springs. The second endpoint is read again after
  the first one was written, as the object would be.\<close>

definition applySpringForce :: "spring \<Rightarrow> mass_point list \<Rightarrow> mass_point list" where
  "applySpringForce s ms =
     (let i = s_mass1 s; j = s_mass2 s;
          dx = vec_x (position (ms ! j)) - vec_x (position (ms ! i));
          dy = vec_y (position (ms ! j)) - vec_y (position (ms ! i));
          dz = vec_z (position (ms ! j)) - vec_z (position (ms ! i));
          distance = dist3 dx dy dz
      in if distance = 0 then ms
         else
           (let displacement = distance - restLength s;
                forceMagnitude = s_stiffness s * displacement;
                dirX = dx / distance; dirY = dy / distance; dirZ = dz / distance;
                ms1 = (if \<not> fixed (ms ! i)
                       then ms[i := (ms ! i)\<lparr>force :=
                              \<lparr>vec_x = vec_x (force (ms ! i)) + forceMagnitude * dirX,
                               vec_y = vec_y (force (ms ! i)) + forceMagnitude * dirY,
                               vec_z = vec_z (force (ms ! i)) + forceMagnitude * dirZ\<rparr>\<rparr>]
                       else ms)
            in if \<not> fixed (ms1 ! j)
               then ms1[j := (ms1 ! j)\<lparr>force :=
                      \<lparr>vec_x = vec_x (force (ms1 ! j)) - forceMagnitude * dirX,
                       vec_y = vec_y (force (ms1 ! j)) - forceMagnitude * dirY,
                       vec_z = vec_z (force (ms1 ! j)) - forceMagnitude * dirZ\<rparr>\<rparr>]
               else ms1))"

definition applyForces :: "engine \<Rightarrow> engine" where
  "applyForces e =
     e\<lparr>masses := fold applySpringForce (springs e) (map (applyGravity (gravity e)) (masses e))\<rparr>"

definition integrateMass :: "real \<Rightarrow> real \<Rightarrow> mass_point \<Rightarrow> mass_point" where
  "integrateMass d deltaTime m =
     (if fixed m then m
      else
        (let ax = vec_x (force m) / mass m;
             ay = vec_y (force m) / mass m;
             az = vec_z (force m) / mass m;
             v1 = \<lparr>vec_x = vec_x (velocity m) + ax * deltaTime,
                   vec_y = vec_y (velocity m) + ay * deltaTime,
                   vec_z = vec_z (velocity m) + az * deltaTime\<rparr>;
             v2 = \<lparr>vec_x = vec_x v1 * d, vec_y = vec_y v1 * d, vec_z = vec_z v1 * d\<rparr>
         in m\<lparr>velocity := v2,
              position := \<lparr>vec_x = vec_x (position m) + vec_x v2 * deltaTime,
                           vec_y = vec_y (position m) + vec_y v2 * deltaTime,
                           vec_z = vec_z (position m) + vec_z v2 * deltaTime\<rparr>\<rparr>))"

definition integrate :: "engine \<Rightarrow> real \<Rightarrow> engine" where
  "integrate e deltaTime = e\<lparr>masses := map (integrateMass (damping e) deltaTime) (masses e)\<rparr>"

definition applyDistanceConstraint :: "constraint \<Rightarrow> mass_point list \<Rightarrow> mass_point list" where
  "applyDistanceConstraint c ms =
     (let i = c_mass1 c; j = c_mass2 c;
          dx = vec_x (position (ms ! j)) - vec_x (position (ms ! i));
          dy = vec_y (position (ms ! j)) - vec_y (position (ms ! i));
          dz = vec_z (position (ms ! j)) - vec_z (position (ms ! i));
          distance = dist3 dx dy dz
      in if distance = 0 then ms
         else
           (let diff = (distance - c_distance c) / distance;
                adjustX = dx * diff * 0.5 * c_stiffness c;
                adjustY = dy * diff * 0.5 * c_stiffness c;
                adjustZ = dz * diff * 0.5 * c_stiffness c;
                ms1 = (if \<not> fixed (ms ! i)
                       then ms[i := (ms ! i)\<lparr>position :=
                              \<lparr>vec_x = vec_x (position (ms ! i)) + adjustX,
                               vec_y = vec_y (position (ms ! i)) + adjustY,
                               vec_z = vec_z (position (ms ! i)) + adjustZ\<rparr>\<rparr>]
                       else ms)
            in if \<not> fixed (ms1 ! j)
               then ms1[j := (ms1 ! j)\<lparr>position :=
                      \<lparr>vec_x = vec_x (position (ms1 ! j)) - adjustX,
                       vec_y = vec_y (position (ms1 ! j)) - adjustY,
                       vec_z = vec_z (position (ms1 ! j)) - adjustZ\<rparr>\<rparr>]
               else ms1))"

text \<open>The body of \<^verbatim>\<open>this.constraints.forEach\<close>: only a constraint of type
  \<^verbatim>\<open>'distance'\<close> is applied.\<close>

fun applyConstraint :: "constraint \<Rightarrow> mass_point list \<Rightarrow> mass_point list" where
  "applyConstraint (Distance i j d k) ms = applyDistanceConstraint (Distance i j d k) ms"
| "applyConstraint (Collision i g r) ms = ms"

definition constraintPass :: "constraint list \<Rightarrow> mass_point list \<Rightarrow> mass_point list" where
  "constraintPass cs ms = fold applyConstraint cs ms"

text \<open>\<^verbatim>\<open>for (let i = 0; i < 3; i++)\<close>.\<close>

function constraintLoop :: "nat \<Rightarrow> constraint list \<Rightarrow> mass_point list \<Rightarrow> mass_point list" where
  "constraintLoop i cs ms = (if i < 3 then constraintLoop (i + 1) cs (constraintPass cs ms) else ms)"
  by pat_completeness auto
termination
  by (relation "measure (\<lambda>(i, cs, ms). 3 - i)") auto

definition applyConstraints :: "engine \<Rightarrow> engine" where
  "applyConstraints e = e\<lparr>masses := constraintLoop 0 (constraints e) (masses e)\<rparr>"

definition collideMass :: "mass_point \<Rightarrow> mass_point" where
  "collideMass m =
     (let groundY = - 50 in
      if \<not> fixed m \<and> vec_y (position m) < groundY
      then m\<lparr>position := (position m)\<lparr>vec_y := groundY\<rparr>,
             velocity := \<lparr>vec_x = vec_x (velocity m) * 0.9,
                          vec_y = - vec_y (velocity m) * 0.7,
                          vec_z = vec_z (velocity m) * 0.9\<rparr>\<rparr>
      else m)"

definition handleCollisions :: "engine \<Rightarrow> engine" where
  "handleCollisions e = e\<lparr>masses := map collideMass (masses e)\<rparr>"

definition clearForces :: "engine \<Rightarrow> engine" where
  "clearForces e =
     e\<lparr>masses := map (\<lambda>m. m\<lparr>force := \<lparr>vec_x = 0, vec_y = 0, vec_z = 0\<rparr>\<rparr>) (masses e)\<rparr>"

definition getMassPositions :: "engine \<Rightarrow> snapshot list" where
  "getMassPositions e = map (\<lambda>m. \<lparr>snap_id = m_id m, snap_position = position m\<rparr>) (masses e)"

text \<open>\<^verbatim>\<open>update(deltaTime = this.timeStep)\<close>: the argument is \<open>None\<close> when the caller
  passes none. The result is the returned value (\<open>None\<close> for the bare \<^verbatim>\<open>return\<close>)
  and the engine after the call.\<close>

definition update :: "engine \<Rightarrow> real option \<Rightarrow> snapshot list option \<times> engine" where
  "update e dt =
     (let deltaTime = (case dt of None \<Rightarrow> timeStep e | Some d \<Rightarrow> d)
      in if \<not> enabled e \<or> deltaTime \<le> 0 then (None, e)
         else
           (let e1 = applyForces e;
                e2 = integrate e1 deltaTime;
                e3 = applyConstraints e2;
                e4 = handleCollisions e3;
                e5 = clearForces e4
            in (Some (getMassPositions e5), e5)))"

subsection \<open>The rest of the interface\<close>

definition enable :: "engine \<Rightarrow> engine" where
  "enable e = e\<lparr>enabled := True\<rparr>"

definition disable :: "engine \<Rightarrow> engine" where
  "disable e = e\<lparr>enabled := False\<rparr>"

definition setGravity :: "engine \<Rightarrow> real \<Rightarrow> engine" where
  "setGravity e v = e\<lparr>gravity := v\<rparr>"

definition applyForce :: "engine \<Rightarrow> string \<Rightarrow> vec3 \<Rightarrow> engine" where
  "applyForce e massId f =
     (case findMass (masses e) massId of
        None \<Rightarrow> e
      | Some i \<Rightarrow>
          (let m = masses e ! i in
           if \<not> fixed m
           then e\<lparr>masses := (masses e)[i := m\<lparr>force :=
                    \<lparr>vec_x = vec_x (force m) + vec_x f,
                     vec_y = vec_y (force m) + vec_y f,
                     vec_z = vec_z (force m) + vec_z f\<rparr>\<rparr>]\<rparr>
           else e))"

definition applyImpulse :: "engine \<Rightarrow> string \<Rightarrow> vec3 \<Rightarrow> engine" where
  "applyImpulse e massId impulse =
     (case findMass (masses e) massId of
        None \<Rightarrow> e
      | Some i \<Rightarrow>
          (let m = masses e ! i in
           if \<not> fixed m
           then e\<lparr>masses := (masses e)[i := m\<lparr>velocity :=
                    \<lparr>vec_x = vec_x (velocity m) + vec_x impulse / mass m,
                     vec_y = vec_y (velocity m) + vec_y impulse / mass m,
                     vec_z = vec_z (velocity m) + vec_z impulse / mass m\<rparr>\<rparr>]\<rparr>
           else e))"

definition resetMass :: "(string \<rightharpoonup> vec3) \<Rightarrow> mass_point \<Rightarrow> mass_point" where
  "resetMass op m =
     (let m1 = (case op (m_id m) of
                  Some originalPos \<Rightarrow>
                    m\<lparr>position := \<lparr>vec_x = vec_x originalPos, vec_y = vec_y originalPos,
                                   vec_z = vec_z originalPos\<rparr>\<rparr>
                | None \<Rightarrow> m)
      in m1\<lparr>velocity := \<lparr>vec_x = 0, vec_y = 0, vec_z = 0\<rparr>,
            force := \<lparr>vec_x = 0, vec_y = 0, vec_z = 0\<rparr>\<rparr>)"

definition reset :: "engine \<Rightarrow> engine" where
  "reset e = e\<lparr>masses := map (resetMass (originalPositions e)) (masses e)\<rparr>"

definition setStiffness :: "engine \<Rightarrow> real \<Rightarrow> engine" where
  "setStiffness e k =
     (let k' = max 0 (min 1 k) in
      e\<lparr>stiffness := k', springs := map (\<lambda>s. s\<lparr>s_stiffness := k'\<rparr>) (springs e)\<rparr>)"

definition setDamping :: "engine \<Rightarrow> real \<Rightarrow> engine" where
  "setDamping e d = e\<lparr>damping := max 0 (min 1 d)\<rparr>"

definition getPhysicsData :: "engine \<Rightarrow> physicsData" where
  "getPhysicsData e = \<lparr>pd_enabled = enabled e, pd_gravity = gravity e, pd_damping = damping e,
     pd_stiffness = stiffness e, massCount = length (masses e),
     springCount = length (springs e), constraintCount = length (constraints e)\<rparr>"

definition getMassById :: "engine \<Rightarrow> string \<Rightarrow> nat option" where
  "getMassById e k = findMass (masses e) k"

text \<open>\<^verbatim>\<open>toggleFixed\<close> returns the new flag, or \<^verbatim>\<open>null\<close> (\<open>None\<close>) for an unknown id.\<close>

definition toggleFixed :: "engine \<Rightarrow> string \<Rightarrow> bool option \<times> engine" where
  "toggleFixed e massId =
     (case getMassById e massId of
        Some i \<Rightarrow>
          (let m = masses e ! i in
           (Some (\<not> fixed m), e\<lparr>masses := (masses e)[i := m\<lparr>fixed := \<not> fixed m\<rparr>]\<rparr>))
      | None \<Rightarrow> (None, e))"

definition windMass :: "vec3 \<Rightarrow> mass_point \<Rightarrow> mass_point" where
  "windMass windForce m =
     (if \<not> fixed m
      then m\<lparr>force := \<lparr>vec_x = vec_x (force m) + vec_x windForce * mass m,
                       vec_y = vec_y (force m) + vec_y windForce * mass m,
                       vec_z = vec_z (force m) + vec_z windForce * mass m\<rparr>\<rparr>
      else m)"

definition applyWind :: "engine \<Rightarrow> vec3 \<Rightarrow> engine" where
  "applyWind e windForce = e\<lparr>masses := map (windMass windForce) (masses e)\<rparr>"

definition explodeMass :: "vec3 \<Rightarrow> real \<Rightarrow> real \<Rightarrow> mass_point \<Rightarrow> mass_point" where
  "explodeMass center radius f m =
     (if \<not> fixed m
      then
        (let dx = vec_x (position m) - vec_x center;
             dy = vec_y (position m) - vec_y center;
             dz = vec_z (position m) - vec_z center;
             distance = dist3 dx dy dz
         in if distance < radius \<and> distance > 0
            then
              (let attenuation = (radius - distance) / radius;
                   dirX = dx / distance; dirY = dy / distance; dirZ = dz / distance
               in m\<lparr>force := \<lparr>vec_x = vec_x (force m) + dirX * f * attenuation * mass m,
                               vec_y = vec_y (force m) + dirY * f * attenuation * mass m,
                               vec_z = vec_z (force m) + dirZ * f * attenuation * mass m\<rparr>\<rparr>)
            else m)
      else m)"

definition applyExplosion :: "engine \<Rightarrow> vec3 \<Rightarrow> real \<Rightarrow> real \<Rightarrow> engine" where
  "applyExplosion e center radius f = e\<lparr>masses := map (explodeMass center radius f) (masses e)\<rparr>"

subsection \<open>Sequences of operations\<close>

datatype op =
    Step "real option"
  | ApplyForce string vec3
  | ApplyImpulse string vec3
  | ApplyWind vec3
  | ApplyExplosion vec3 real real
  | ToggleFixed string
  | Reset
  | Enable
  | Disable
  | SetGravity real
  | SetStiffness real
  | SetDamping real

fun exec :: "engine \<Rightarrow> op \<Rightarrow> engine" where
  "exec e (Step dt) = snd (update e dt)"
| "exec e (ApplyForce k f) = applyForce e k f"
| "exec e (ApplyImpulse k i) = applyImpulse e k i"
| "exec e (ApplyWind w) = applyWind e w"
| "exec e (ApplyExplosion c r f) = applyExplosion e c r f"
| "exec e (ToggleFixed k) = snd (toggleFixed e k)"
| "exec e Reset = reset e"
| "exec e Enable = enable e"
| "exec e Disable = disable e"
| "exec e (SetGravity v) = setGravity e v"
| "exec e (SetStiffness k) = setStiffness e k"
| "exec e (SetDamping d) = setDamping e d"

fun run :: "engine \<Rightarrow> op list \<Rightarrow> engine" where
  "run e [] = e"
| "run e (a # as) = run (exec e a) as"

subsection \<open>References that point into the mass array\<close>

text \<open>Every spring and every distance constraint refers to masses of the array. The
  constructor's engine and every engine built by \<^verbatim>\<open>parsePhysicsData\<close> are so, and no
  operation changes the length of the array.\<close>

definition wf_engine :: "engine \<Rightarrow> bool" where
  "wf_engine e \<longleftrightarrow>
     list_all (\<lambda>s. s_mass1 s < length (masses e) \<and> s_mass2 s < length (masses e)) (springs e) \<and>
     list_all (\<lambda>c. case c of
                  Distance i j d k \<Rightarrow> i < length (masses e) \<and> j < length (masses e)
                | Collision i g r \<Rightarrow> i < length (masses e)) (constraints e)"

subsection \<open>Concrete topologies\<close>

text \<open>The scenario of the specification: a joint \<open>A\<close> at the origin (fixed) and a surface
  point \<open>B\<close> ten units below it, linked by one edge.\<close>

definition scenarioMesh :: meshData where
  "scenarioMesh = \<lparr>vertices =
       [\<lparr>v_id = ''A'', v_x = 0, v_y = 0, v_z = 0, v_group = ''torso'', v_type = ''joint'',
         v_weight = 1\<rparr>,
        \<lparr>v_id = ''B'', v_x = 0, v_y = - 10, v_z = 0, v_group = ''torso'', v_type = ''surface'',
         v_weight = 1\<rparr>],
     edges = [(''A'', ''B'')], muscleTension = None, jointConstraints = False\<rparr>"

definition scenarioEngine :: engine where
  "scenarioEngine = parsePhysicsData constructor scenarioMesh"

definition force123 :: vec3 where
  "force123 = \<lparr>vec_x = 1, vec_y = 2, vec_z = 3\<rparr>"

text \<open>A surface point that starts below the ground plane.\<close>

definition sunkMesh :: meshData where
  "sunkMesh = \<lparr>vertices =
       [\<lparr>v_id = ''foot'', v_x = 3, v_y = - 60, v_z = 4, v_group = ''leg'', v_type = ''surface'',
         v_weight = 1\<rparr>],
     edges = [], muscleTension = None, jointConstraints = False\<rparr>"

definition sunkEngine :: engine where
  "sunkEngine = parsePhysicsData constructor sunkMesh"

subsection \<open>What an operation may change of a mass\<close>

text \<open>\<open>moved m m'\<close>: \<open>m'\<close> is \<open>m\<close> up to its position, velocity and force, and when \<open>m\<close>
  is fixed its position and velocity are those of \<open>m\<close> and its force is that of \<open>m\<close> or
  zero.\<close>

definition moved :: "mass_point \<Rightarrow> mass_point \<Rightarrow> bool" where
  "moved m m' \<longleftrightarrow>
     m' = m\<lparr>position := position m', velocity := velocity m', force := force m'\<rparr> \<and>
     (fixed m \<longrightarrow> position m' = position m \<and> velocity m' = velocity m \<and>
        (force m' = force m \<or> force m' = zero3))"

text \<open>A sequence of operations that never toggles the joint \<open>A\<close>.\<close>

definition keptOps :: "op list" where
  "keptOps = [ApplyForce ''A'' force123, ApplyImpulse ''A'' force123, ApplyWind force123,
     ApplyExplosion \<lparr>vec_x = 0, vec_y = - 1, vec_z = 0\<rparr> 20 5, Step (Some 1), ToggleFixed ''B'']"

text \<open>The centre of an explosion three units above \<open>B\<close>.\<close>

definition blastCenter :: vec3 where
  "blastCenter = \<lparr>vec_x = 0, vec_y = - 7, vec_z = 0\<rparr>"

text \<open>A head point (fixed, by its group) twenty units above a neck point, with the
  joint constraints of the table switched on: the table's first row applies.\<close>

definition neckMesh :: meshData where
  "neckMesh = \<lparr>vertices =
       [\<lparr>v_id = ''head_top'', v_x = 0, v_y = 20, v_z = 0, v_group = ''head'', v_type = ''surface'',
         v_weight = 1\<rparr>,
        \<lparr>v_id = ''neck_top_center'', v_x = 0, v_y = 0, v_z = 0, v_group = ''neck'',
         v_type = ''surface'', v_weight = 1\<rparr>],
     edges = [], muscleTension = None, jointConstraints = True\<rparr>"

definition neckEngine :: engine where
  "neckEngine = parsePhysicsData constructor neckMesh"

text \<open>A single surface point at the origin, with no edge: once with gravity \<open>1\<close> and no
  damping, once with the constructor's gravity and damping.\<close>

definition fallMesh :: meshData where
  "fallMesh = \<lparr>vertices =
       [\<lparr>v_id = ''P'', v_x = 0, v_y = 0, v_z = 0, v_group = ''torso'', v_type = ''surface'',
         v_weight = 1\<rparr>],
     edges = [], muscleTension = None, jointConstraints = False\<rparr>"

definition fallEngine :: engine where
  "fallEngine = enable (setDamping (setGravity (parsePhysicsData constructor fallMesh) 1) 1)"

text \<open>An enabled engine whose only mass is \<open>m\<close>: not fixed, of nonzero mass, with an empty
  force accumulator, and with no spring.\<close>

definition freeFalling :: "engine \<Rightarrow> mass_point \<Rightarrow> bool" where
  "freeFalling e m \<longleftrightarrow>
     enabled e \<and> wf_engine e \<and> masses e = [m] \<and> springs e = [] \<and>
     \<not> fixed m \<and> mass m \<noteq> 0 \<and> force m = zero3"

definition dropEngine :: engine where
  "dropEngine = enable (parsePhysicsData constructor fallMesh)"

text \<open>A force on \<open>B\<close>, which is then made fixed.\<close>

definition forcedOps :: "op list" where
  "forcedOps = [ApplyForce ''B'' force123, ToggleFixed ''B'']"

text \<open>Two vertices that carry the same id.\<close>

definition dupMesh :: meshData where
  "dupMesh = \<lparr>vertices =
       [\<lparr>v_id = ''D'', v_x = 1, v_y = 2, v_z = 3, v_group = ''arm'', v_type = ''surface'',
         v_weight = 1\<rparr>,
        \<lparr>v_id = ''D'', v_x = 4, v_y = 5, v_z = 6, v_group = ''arm'', v_type = ''surface'',
         v_weight = 1\<rparr>],
     edges = [], muscleTension = None, jointConstraints = False\<rparr>"

definition dupEngine :: engine where
  "dupEngine = parsePhysicsData constructor dupMesh"

text \<open>Forces and an impulse aimed at the joint \<open>A\<close>, with no step.\<close>

definition pushOps :: "op list" where
  "pushOps = [ApplyForce ''A'' force123, ApplyImpulse ''A'' force123, ApplyWind force123,
     ApplyExplosion \<lparr>vec_x = 0, vec_y = - 1, vec_z = 0\<rparr> 20 5]"

section \<open>Properties\<close>

subsection \<open>Evaluation and lookup\<close>

lemma dist3_axis [simp]: "dist3 0 d 0 = \<bar>d\<bar>" "dist3 d 0 0 = \<bar>d\<bar>" "dist3 0 0 d = \<bar>d\<bar>"
  by (simp_all add: dist3_def)

lemmas parse_eval = parsePhysicsData_def constructor_def mkMass_def
  addCollisionConstraints_def addJointConstraints_def List.map_filter_def mkSpring_def
  mkJointConstraint_def jointConstraintTable_def tensionOrDefault_def Let_def upt_conv_Cons

lemma scenarioEngine_eval:
  "scenarioEngine =
     \<lparr>gravity = 49 / 5, damping = 19 / 20, stiffness = 3 / 20, enabled = False,
      timeStep = 1 / 60,
      springs = [\<lparr>s_mass1 = 0, s_mass2 = Suc 0, restLength = 10, s_stiffness = 9 / 200,
                  s_damping = 1 / 10\<rparr>],
      masses =
        [\<lparr>m_id = ''A'', position = \<lparr>vec_x = 0, vec_y = 0, vec_z = 0\<rparr>,
          originalPosition = \<lparr>vec_x = 0, vec_y = 0, vec_z = 0\<rparr>,
          velocity = \<lparr>vec_x = 0, vec_y = 0, vec_z = 0\<rparr>,
          force = \<lparr>vec_x = 0, vec_y = 0, vec_z = 0\<rparr>, mass = 10, fixed = True,
          m_group = ''torso'', m_type = ''joint''\<rparr>,
         \<lparr>m_id = ''B'', position = \<lparr>vec_x = 0, vec_y = - 10, vec_z = 0\<rparr>,
          originalPosition = \<lparr>vec_x = 0, vec_y = - 10, vec_z = 0\<rparr>,
          velocity = \<lparr>vec_x = 0, vec_y = 0, vec_z = 0\<rparr>,
          force = \<lparr>vec_x = 0, vec_y = 0, vec_z = 0\<rparr>, mass = 10, fixed = False,
          m_group = ''torso'', m_type = ''surface''\<rparr>],
      constraints = [],
      originalPositions =
        [''A'' \<mapsto> \<lparr>vec_x = 0, vec_y = 0, vec_z = 0\<rparr>,
         ''B'' \<mapsto> \<lparr>vec_x = 0, vec_y = - 10, vec_z = 0\<rparr>]\<rparr>"
  by (simp add: scenarioEngine_def scenarioMesh_def parse_eval)

lemma findMass_None_iff: "findMass ms k = None \<longleftrightarrow> k \<notin> m_id ` set ms"
  by (induction ms) auto

lemma findMass_Some:
  "findMass ms k = Some i \<Longrightarrow> i < length ms \<and> m_id (ms ! i) = k \<and> (\<forall>j < i. m_id (ms ! j) \<noteq> k)"
proof (induction ms arbitrary: i)
  case Nil
  then show ?case by simp
next
  case (Cons m ms)
  show ?case
  proof (cases "m_id m = k")
    case True
    with Cons.prems show ?thesis by simp
  next
    case False
    with Cons.prems obtain i' where i': "findMass ms k = Some i'" "i = Suc i'" by auto
    from Cons.IH[OF i'(1)] False i'(2) show ?thesis
      by (auto simp: nth_Cons split: nat.splits)
  qed
qed

subsection \<open>The loop of the relaxation, and the length of the mass array\<close>

declare constraintLoop.simps [simp del]

lemma constraintLoop_funpow: "constraintLoop i cs ms = (constraintPass cs ^^ (3 - i)) ms"
proof (induction i cs ms rule: constraintLoop.induct)
  case (1 i cs ms)
  show ?case
  proof (cases "i < 3")
    case True
    then have "3 - i = Suc (3 - (i + 1))" by simp
    with 1 True show ?thesis
      by (subst constraintLoop.simps) (simp add: funpow_swap1)
  next
    case False
    then show ?thesis
      by (subst constraintLoop.simps) simp
  qed
qed

lemma constraintLoop_three:
  "constraintLoop 0 cs ms = constraintPass cs (constraintPass cs (constraintPass cs ms))"
  by (simp add: constraintLoop_funpow numeral_3_eq_3)

lemma length_applySpringForce [simp]: "length (applySpringForce s ms) = length ms"
  by (simp add: applySpringForce_def Let_def)

lemma length_fold_applySpringForce [simp]: "length (fold applySpringForce ss ms) = length ms"
  by (induction ss arbitrary: ms) simp_all

lemma length_applyDistanceConstraint [simp]: "length (applyDistanceConstraint c ms) = length ms"
  by (simp add: applyDistanceConstraint_def Let_def)

lemma length_applyConstraint [simp]: "length (applyConstraint c ms) = length ms"
  by (cases c) simp_all

lemma length_constraintPass [simp]: "length (constraintPass cs ms) = length ms"
  unfolding constraintPass_def by (induction cs arbitrary: ms) simp_all

lemma length_masses_phase [simp]:
  "length (masses (applyForces e)) = length (masses e)"
  "length (masses (integrate e d)) = length (masses e)"
  "length (masses (applyConstraints e)) = length (masses e)"
  "length (masses (handleCollisions e)) = length (masses e)"
  "length (masses (clearForces e)) = length (masses e)"
  by (simp_all add: applyForces_def integrate_def applyConstraints_def handleCollisions_def
      clearForces_def constraintLoop_three)

lemma length_masses_update [simp]: "length (masses (snd (update e dt))) = length (masses e)"
  by (simp add: update_def Let_def)

lemma length_masses_op [simp]:
  "length (masses (applyForce e k f)) = length (masses e)"
  "length (masses (applyImpulse e k f)) = length (masses e)"
  "length (masses (applyWind e w)) = length (masses e)"
  "length (masses (applyExplosion e c r s)) = length (masses e)"
  "length (masses (snd (toggleFixed e k))) = length (masses e)"
  "length (masses (reset e)) = length (masses e)"
  by (simp_all add: applyForce_def applyImpulse_def applyWind_def applyExplosion_def
      toggleFixed_def getMassById_def reset_def Let_def split: option.splits)

lemma masses_config [simp]:
  "masses (enable e) = masses e"
  "masses (disable e) = masses e"
  "masses (setGravity e v) = masses e"
  "masses (setStiffness e k) = masses e"
  "masses (setDamping e d) = masses e"
  by (simp_all add: enable_def disable_def setGravity_def setStiffness_def setDamping_def Let_def)

lemma length_masses_exec [simp]: "length (masses (exec e a)) = length (masses e)"
  by (cases a) simp_all

lemma length_masses_run [simp]: "length (masses (run e as)) = length (masses e)"
  by (induction as arbitrary: e) simp_all

subsection \<open>Unknown ids and fixed masses\<close>

text \<open>
  Claim C9. For an id that no mass carries, \<^verbatim>\<open>applyForce\<close>, \<^verbatim>\<open>applyImpulse\<close> and
  \<^verbatim>\<open>toggleFixed\<close> leave the whole engine as it was, and \<^verbatim>\<open>toggleFixed\<close> returns
  \<^verbatim>\<open>null\<close> (here \<open>None\<close>) without raising. When the id names a mass (the first one
  that carries it) and that mass is fixed, \<^verbatim>\<open>applyForce\<close> and \<^verbatim>\<open>applyImpulse\<close> leave the
  engine as it was too.
\<close>

theorem unknown_id_or_fixed_is_noop:
  "(k \<notin> m_id ` set (masses e) \<longrightarrow>
      applyForce e k f = e \<and> applyImpulse e k f = e \<and> toggleFixed e k = (None, e)) \<and>
   (\<forall>i. findMass (masses e) k = Some i \<and> fixed (masses e ! i) \<longrightarrow>
      applyForce e k f = e \<and> applyImpulse e k f = e)"
  by (simp add: findMass_None_iff[symmetric] applyForce_def applyImpulse_def toggleFixed_def
      getMassById_def)

theorem unknown_id_or_fixed_is_noop_witness:
  "''C'' \<notin> m_id ` set (masses scenarioEngine) \<and>
   applyForce scenarioEngine ''C'' force123 = scenarioEngine \<and>
   applyImpulse scenarioEngine ''C'' force123 = scenarioEngine \<and>
   toggleFixed scenarioEngine ''C'' = (None, scenarioEngine) \<and>
   findMass (masses scenarioEngine) ''A'' = Some 0 \<and> fixed (masses scenarioEngine ! 0) \<and>
   applyForce scenarioEngine ''A'' force123 = scenarioEngine \<and>
   applyImpulse scenarioEngine ''A'' force123 = scenarioEngine"
proof -
  have a: "''C'' \<notin> m_id ` set (masses scenarioEngine)"
    by (simp add: scenarioEngine_eval)
  have b: "findMass (masses scenarioEngine) ''A'' = Some 0 \<and> fixed (masses scenarioEngine ! 0)"
    by (simp add: scenarioEngine_eval)
  from a b unknown_id_or_fixed_is_noop[of "''C''" scenarioEngine force123]
    unknown_id_or_fixed_is_noop[of "''A''" scenarioEngine force123]
  show ?thesis by blast
qed

subsection \<open>The guard of a step\<close>

lemma enabled_apply [simp]:
  "enabled (applyWind e w) = enabled e"
  "enabled (applyExplosion e c r s) = enabled e"
  "enabled (applyForce e k f) = enabled e"
  by (simp_all add: applyWind_def applyExplosion_def applyForce_def Let_def split: option.splits)

text \<open>
  Claim C3. When the engine is disabled or the time step is not positive, \<^verbatim>\<open>update\<close>
  returns nothing (\<open>None\<close>) and the engine is exactly as before: no force accumulator
  is cleared. So a force applied to a disabled engine by \<^verbatim>\<open>applyWind\<close>,
  \<^verbatim>\<open>applyExplosion\<close> or \<^verbatim>\<open>applyForce\<close> is still there after any number of such calls.
  An enabled step with a positive time step ends with \<^verbatim>\<open>clearForces\<close>, after which
  every accumulator is zero.
\<close>

theorem update_guard_is_noop:
  "(\<not> enabled e \<or> (case dt of None \<Rightarrow> timeStep e | Some d \<Rightarrow> d) \<le> 0 \<longrightarrow>
      update e dt = (None, e)) \<and>
   (\<not> enabled e \<longrightarrow>
      update (applyWind e w) dt = (None, applyWind e w) \<and>
      update (applyExplosion e c r s) dt = (None, applyExplosion e c r s) \<and>
      update (applyForce e k f) dt = (None, applyForce e k f)) \<and>
   (enabled e \<and> 0 < d \<longrightarrow>
      update e (Some d) =
        (let e5 = clearForces (handleCollisions (applyConstraints (integrate (applyForces e) d)))
         in (Some (getMassPositions e5), e5)) \<and>
      (\<forall>m \<in> set (masses (snd (update e (Some d)))). force m = zero3))"
  by (auto simp: update_def Let_def clearForces_def zero3_def)

theorem update_guard_is_noop_witness:
  "\<not> enabled scenarioEngine \<and>
   update (applyWind scenarioEngine force123) (Some 1) = (None, applyWind scenarioEngine force123) \<and>
   force (masses (snd (update (applyWind scenarioEngine force123) (Some 1))) ! 1) =
     \<lparr>vec_x = 10, vec_y = 20, vec_z = 30\<rparr> \<and>
   enabled (enable (applyWind scenarioEngine force123)) \<and> (0::real) < 1 / 60 \<and>
   force (masses (enable (applyWind scenarioEngine force123)) ! 1) =
     \<lparr>vec_x = 10, vec_y = 20, vec_z = 30\<rparr> \<and>
   force (masses (snd (update (enable (applyWind scenarioEngine force123)) (Some (1 / 60)))) ! 1) = zero3"
proof -
  let ?w = "applyWind scenarioEngine force123"
  have a: "\<not> enabled scenarioEngine"
    by (simp add: scenarioEngine_eval)
  have b: "enabled (enable ?w) \<and> (0::real) < 1 / 60"
    by (simp add: enable_def)
  have c: "force (masses ?w ! 1) = \<lparr>vec_x = 10, vec_y = 20, vec_z = 30\<rparr>"
    by (simp add: scenarioEngine_eval applyWind_def windMass_def force123_def)
  have c': "force (masses (enable ?w) ! 1) = \<lparr>vec_x = 10, vec_y = 20, vec_z = 30\<rparr>"
    using c by (simp add: enable_def)
  from a update_guard_is_noop[of scenarioEngine "Some 1" force123]
  have d: "update ?w (Some 1) = (None, ?w)"
    by blast
  from b update_guard_is_noop[of "enable ?w" _ _ _ _ _ _ _ "1 / 60"]
  have f: "\<forall>m \<in> set (masses (snd (update (enable ?w) (Some (1 / 60))))). force m = zero3"
    by blast
  have "length (masses (snd (update (enable ?w) (Some (1 / 60))))) = 2"
    by (simp add: scenarioEngine_eval)
  then have "masses (snd (update (enable ?w) (Some (1 / 60)))) ! 1
      \<in> set (masses (snd (update (enable ?w) (Some (1 / 60)))))"
    by simp
  with f have g: "force (masses (snd (update (enable ?w) (Some (1 / 60)))) ! 1) = zero3"
    by blast
  from a b c c' d g show ?thesis by simp
qed

subsection \<open>Spring stiffness at construction\<close>

lemma springs_parsePhysicsData:
  "springs (parsePhysicsData e md) =
     List.map_filter (mkSpring (map mkMass (vertices md)) (muscleTension md) (stiffness e)) (edges md)"
  by (simp add: parsePhysicsData_def Let_def addCollisionConstraints_def addJointConstraints_def)

text \<open>
  Claim C10. When the topology gives \<^verbatim>\<open>physics.springs.muscleTension\<close> the falsy value
  \<open>0\<close>, every spring that is created gets the stiffness \<open>0.3\<close> times the engine's
  stiffness, and the springs are those created when the field is absent. Only a
  nonzero tension \<open>t\<close> gives the stiffness \<open>t\<close> times the engine's stiffness.
\<close>

theorem falsy_muscleTension_takes_default:
  "(muscleTension md = Some 0 \<or> muscleTension md = None \<longrightarrow>
      (\<forall>s \<in> set (springs (parsePhysicsData e md)). s_stiffness s = 0.3 * stiffness e) \<and>
      springs (parsePhysicsData e md) = springs (parsePhysicsData e (md\<lparr>muscleTension := None\<rparr>))) \<and>
   (\<forall>t. muscleTension md = Some t \<and> t \<noteq> 0 \<longrightarrow>
      (\<forall>s \<in> set (springs (parsePhysicsData e md)). s_stiffness s = t * stiffness e))"
  by (auto simp: springs_parsePhysicsData List.map_filter_def mkSpring_def tensionOrDefault_def
      Let_def split: option.splits)

theorem falsy_muscleTension_takes_default_witness:
  "muscleTension (scenarioMesh\<lparr>muscleTension := Some 0\<rparr>) = Some 0 \<and>
   length (springs (parsePhysicsData constructor (scenarioMesh\<lparr>muscleTension := Some 0\<rparr>))) = 1 \<and>
   s_stiffness (hd (springs (parsePhysicsData constructor (scenarioMesh\<lparr>muscleTension := Some 0\<rparr>)))) =
     0.3 * 0.15 \<and>
   muscleTension (scenarioMesh\<lparr>muscleTension := Some 2\<rparr>) = Some 2 \<and>
   length (springs (parsePhysicsData constructor (scenarioMesh\<lparr>muscleTension := Some 2\<rparr>))) = 1 \<and>
   s_stiffness (hd (springs (parsePhysicsData constructor (scenarioMesh\<lparr>muscleTension := Some 2\<rparr>)))) =
     2 * 0.15"
proof -
  let ?s0 = "springs (parsePhysicsData constructor (scenarioMesh\<lparr>muscleTension := Some 0\<rparr>))"
  let ?s2 = "springs (parsePhysicsData constructor (scenarioMesh\<lparr>muscleTension := Some 2\<rparr>))"
  have a: "muscleTension (scenarioMesh\<lparr>muscleTension := Some 0\<rparr>) = Some 0"
    by simp
  have b: "length ?s0 = 1" "length ?s2 = 1"
    by (simp_all add: scenarioMesh_def parse_eval)
  then have m: "hd ?s0 \<in> set ?s0" "hd ?s2 \<in> set ?s2"
    by (simp_all add: length_Suc_conv) auto
  have c: "muscleTension (scenarioMesh\<lparr>muscleTension := Some 2\<rparr>) = Some 2 \<and> (2::real) \<noteq> 0"
    by simp
  have k: "stiffness constructor = 0.15"
    by (simp add: constructor_def)
  from a m(1) falsy_muscleTension_takes_default[of "scenarioMesh\<lparr>muscleTension := Some 0\<rparr>" constructor]
  have d: "s_stiffness (hd ?s0) = 0.3 * stiffness constructor"
    by blast
  from c m(2) falsy_muscleTension_takes_default[of "scenarioMesh\<lparr>muscleTension := Some 2\<rparr>" constructor]
  have f: "s_stiffness (hd ?s2) = 2 * stiffness constructor"
    by blast
  from a b c d f show ?thesis unfolding k by simp
qed

subsection \<open>Ground collisions\<close>

lemma sunkEngine_eval:
  "sunkEngine =
     \<lparr>gravity = 49 / 5, damping = 19 / 20, stiffness = 3 / 20, enabled = False,
      timeStep = 1 / 60, springs = [],
      masses =
        [\<lparr>m_id = ''foot'', position = \<lparr>vec_x = 3, vec_y = - 60, vec_z = 4\<rparr>,
          originalPosition = \<lparr>vec_x = 3, vec_y = - 60, vec_z = 4\<rparr>,
          velocity = \<lparr>vec_x = 0, vec_y = 0, vec_z = 0\<rparr>,
          force = \<lparr>vec_x = 0, vec_y = 0, vec_z = 0\<rparr>, mass = 10, fixed = False,
          m_group = ''leg'', m_type = ''surface''\<rparr>],
      constraints = [Collision 0 (- 50) (7 / 10)],
      originalPositions = [''foot'' \<mapsto> \<lparr>vec_x = 3, vec_y = - 60, vec_z = 4\<rparr>]\<rparr>"
  by (simp add: sunkEngine_def sunkMesh_def parse_eval)

text \<open>
  Claim C5. In the collision phase, a mass that is not fixed and whose \<open>position.y\<close> is
  below \<open>-50\<close> gets \<open>position.y = -50\<close>, its \<open>velocity.y\<close> becomes \<open>-0.7\<close> times the
  old one, and its \<open>velocity.x\<close> and \<open>velocity.z\<close> are multiplied by \<open>0.9\<close>; nothing
  else of it changes. A fixed mass and a mass with \<open>position.y \<ge> -50\<close> are left as
  they are. The phase is the fourth of an effective step.
\<close>

theorem handleCollisions_law:
  "length (masses (handleCollisions e)) = length (masses e) \<and>
   (\<forall>i < length (masses e).
      masses (handleCollisions e) ! i =
        (let m = masses e ! i in
         if \<not> fixed m \<and> vec_y (position m) < - 50
         then m\<lparr>position := \<lparr>vec_x = vec_x (position m), vec_y = - 50, vec_z = vec_z (position m)\<rparr>,
                velocity := \<lparr>vec_x = 0.9 * vec_x (velocity m),
                             vec_y = - 0.7 * vec_y (velocity m),
                             vec_z = 0.9 * vec_z (velocity m)\<rparr>\<rparr>
         else m)) \<and>
   (enabled e \<and> 0 < d \<longrightarrow>
      snd (update e (Some d)) =
        clearForces (handleCollisions (applyConstraints (integrate (applyForces e) d))))"
  by (simp add: handleCollisions_def collideMass_def Let_def update_def)

theorem handleCollisions_law_witness:
  "(0::nat) < length (masses (applyImpulse sunkEngine ''foot'' \<lparr>vec_x = 10, vec_y = - 20, vec_z = 30\<rparr>)) \<and>
   masses (handleCollisions (applyImpulse sunkEngine ''foot'' \<lparr>vec_x = 10, vec_y = - 20, vec_z = 30\<rparr>)) ! 0 =
     \<lparr>m_id = ''foot'', position = \<lparr>vec_x = 3, vec_y = - 50, vec_z = 4\<rparr>,
      originalPosition = \<lparr>vec_x = 3, vec_y = - 60, vec_z = 4\<rparr>,
      velocity = \<lparr>vec_x = 9 / 10, vec_y = 14 / 10, vec_z = 27 / 10\<rparr>,
      force = \<lparr>vec_x = 0, vec_y = 0, vec_z = 0\<rparr>, mass = 10, fixed = False,
      m_group = ''leg'', m_type = ''surface''\<rparr> \<and>
   enabled (enable scenarioEngine) \<and> (0::real) < 1 \<and>
   snd (update (enable scenarioEngine) (Some 1)) =
     clearForces (handleCollisions (applyConstraints (integrate (applyForces (enable scenarioEngine)) 1)))"
proof -
  have a: "masses (applyImpulse sunkEngine ''foot'' \<lparr>vec_x = 10, vec_y = - 20, vec_z = 30\<rparr>) =
     [\<lparr>m_id = ''foot'', position = \<lparr>vec_x = 3, vec_y = - 60, vec_z = 4\<rparr>,
       originalPosition = \<lparr>vec_x = 3, vec_y = - 60, vec_z = 4\<rparr>,
       velocity = \<lparr>vec_x = 1, vec_y = - 2, vec_z = 3\<rparr>,
       force = \<lparr>vec_x = 0, vec_y = 0, vec_z = 0\<rparr>, mass = 10, fixed = False,
       m_group = ''leg'', m_type = ''surface''\<rparr>]"
    by (simp add: sunkEngine_eval applyImpulse_def)
  have b: "enabled (enable scenarioEngine) \<and> (0::real) < 1"
    by (simp add: enable_def)
  from handleCollisions_law[of "applyImpulse sunkEngine ''foot'' \<lparr>vec_x = 10, vec_y = - 20, vec_z = 30\<rparr>"]
    handleCollisions_law[of "enable scenarioEngine" 1] b
  show ?thesis unfolding a by simp
qed

subsection \<open>Fixed masses under the operations\<close>

lemma moved_refl [simp]: "moved m m"
  by (simp add: moved_def)

lemma moved_fields:
  "moved m m' \<Longrightarrow> m_id m' = m_id m \<and> fixed m' = fixed m \<and> mass m' = mass m \<and>
     originalPosition m' = originalPosition m \<and> m_group m' = m_group m \<and> m_type m' = m_type m"
  unfolding moved_def by (cases m, cases m') auto

lemma moved_trans: "moved a b \<Longrightarrow> moved b c \<Longrightarrow> moved a c"
  using moved_fields[of a b] moved_fields[of b c]
  unfolding moved_def by (cases a, cases b, cases c) auto

lemma moved_all_refl [simp]: "list_all2 moved ms ms"
  by (simp add: list_all2_refl)

lemma moved_all_trans:
  "list_all2 moved as bs \<Longrightarrow> list_all2 moved bs cs \<Longrightarrow> list_all2 moved as cs"
  by (rule list_all2_trans[where ?P1.0 = moved and ?P2.0 = moved, OF _ _ ]) (auto intro: moved_trans)

lemma moved_all_map: "(\<And>m. moved m (f m)) \<Longrightarrow> list_all2 moved ms (map f ms)"
  by (simp add: list_all2_map2 list_all2_refl)

lemma moved_update:
  "moved (ms ! i) m' \<Longrightarrow> list_all2 moved ms (ms[i := m'])"
proof -
  assume a: "moved (ms ! i) m'"
  have "moved (ms ! k) (ms[i := m'] ! k)" if "k < length ms" for k
    using a that by (cases "k = i") simp_all
  then show ?thesis
    by (simp add: list_all2_conv_all_nth)
qed

lemma moved_applySpringForce: "list_all2 moved ms (applySpringForce s ms)"
proof -
  have step: "list_all2 moved ms (ms[k := (ms ! k)\<lparr>force := f\<rparr>])" if "\<not> fixed (ms ! k)" for k f ms
    using that by (intro moved_update) (simp add: moved_def)
  show ?thesis
    unfolding applySpringForce_def Let_def
    by (auto intro!: step moved_all_trans[OF step step])
qed

lemma moved_fold:
  "(\<And>s ms. list_all2 moved ms (F s ms)) \<Longrightarrow> list_all2 moved ms (fold F ss ms)"
proof (induction ss arbitrary: ms)
  case Nil
  show ?case by simp
next
  case (Cons s ss)
  have "list_all2 moved ms (F s ms)" by (rule Cons.prems)
  moreover have "list_all2 moved (F s ms) (fold F ss (F s ms))"
    by (rule Cons.IH) (rule Cons.prems)
  ultimately show ?case
    by (simp add: moved_all_trans)
qed

lemma moved_applyDistanceConstraint: "list_all2 moved ms (applyDistanceConstraint c ms)"
proof -
  have step: "list_all2 moved ms (ms[k := (ms ! k)\<lparr>position := p\<rparr>])" if "\<not> fixed (ms ! k)" for k p ms
    using that by (intro moved_update) (simp add: moved_def)
  show ?thesis
    unfolding applyDistanceConstraint_def Let_def
    by (auto intro!: step moved_all_trans[OF step step])
qed

lemma moved_applyConstraint: "list_all2 moved ms (applyConstraint c ms)"
  by (cases c) (simp_all add: moved_applyDistanceConstraint)

lemma moved_constraintPass: "list_all2 moved ms (constraintPass cs ms)"
  unfolding constraintPass_def by (rule moved_fold) (rule moved_applyConstraint)

lemma moved_applyForces: "list_all2 moved (masses e) (masses (applyForces e))"
proof -
  have "list_all2 moved (masses e) (map (applyGravity (gravity e)) (masses e))"
    by (rule moved_all_map) (simp add: applyGravity_def moved_def)
  moreover have "list_all2 moved (map (applyGravity (gravity e)) (masses e))
      (fold applySpringForce (springs e) (map (applyGravity (gravity e)) (masses e)))"
    by (rule moved_fold) (rule moved_applySpringForce)
  ultimately show ?thesis
    by (simp add: applyForces_def moved_all_trans)
qed

lemma moved_integrate: "list_all2 moved (masses e) (masses (integrate e d))"
  unfolding integrate_def by (simp, rule moved_all_map) (simp add: integrateMass_def Let_def moved_def)

lemma moved_applyConstraints: "list_all2 moved (masses e) (masses (applyConstraints e))"
proof -
  let ?p = "constraintPass (constraints e)"
  have "list_all2 moved (masses e) (?p (?p (?p (masses e))))"
    by (rule moved_all_trans[OF moved_all_trans], rule moved_constraintPass,
        rule moved_constraintPass, rule moved_constraintPass)
  then show ?thesis
    by (simp add: applyConstraints_def constraintLoop_three)
qed

lemma moved_handleCollisions: "list_all2 moved (masses e) (masses (handleCollisions e))"
  unfolding handleCollisions_def by (simp, rule moved_all_map) (simp add: collideMass_def Let_def moved_def)

lemma moved_clearForces: "list_all2 moved (masses e) (masses (clearForces e))"
  unfolding clearForces_def by (simp, rule moved_all_map) (simp add: moved_def zero3_def)

lemma moved_update_step: "list_all2 moved (masses e) (masses (snd (update e dt)))"
proof -
  let ?e1 = "applyForces e"
  let ?e2 = "integrate ?e1 (case dt of None \<Rightarrow> timeStep e | Some d \<Rightarrow> d)"
  let ?e3 = "applyConstraints ?e2"
  let ?e4 = "handleCollisions ?e3"
  have "list_all2 moved (masses e) (masses ?e2)"
    by (rule moved_all_trans, rule moved_applyForces, rule moved_integrate)
  then have "list_all2 moved (masses e) (masses ?e3)"
    by (rule moved_all_trans) (rule moved_applyConstraints)
  then have "list_all2 moved (masses e) (masses ?e4)"
    by (rule moved_all_trans) (rule moved_handleCollisions)
  then have "list_all2 moved (masses e) (masses (clearForces ?e4))"
    by (rule moved_all_trans) (rule moved_clearForces)
  then show ?thesis
    by (simp add: update_def Let_def)
qed

lemma moved_applyForce: "list_all2 moved (masses e) (masses (applyForce e k f))"
  by (auto simp: applyForce_def Let_def moved_def split: option.splits intro!: moved_update)

lemma moved_applyImpulse: "list_all2 moved (masses e) (masses (applyImpulse e k f))"
  by (auto simp: applyImpulse_def Let_def moved_def split: option.splits intro!: moved_update)

lemma moved_applyWind: "list_all2 moved (masses e) (masses (applyWind e w))"
  unfolding applyWind_def by (simp, rule moved_all_map) (simp add: windMass_def moved_def)

lemma moved_applyExplosion: "list_all2 moved (masses e) (masses (applyExplosion e c r f))"
  unfolding applyExplosion_def by (simp, rule moved_all_map) (simp add: explodeMass_def Let_def moved_def)

lemma moved_nth:
  "list_all2 moved ms ms' \<Longrightarrow> i < length ms \<Longrightarrow> moved (ms ! i) (ms' ! i)"
  by (simp add: list_all2_conv_all_nth)

lemma moved_map_m_id: "list_all2 moved ms ms' \<Longrightarrow> map m_id ms' = map m_id ms"
  by (induction rule: list_all2_induct) (auto dest: moved_fields)

lemma findMass_map_m_id: "map m_id ms' = map m_id ms \<Longrightarrow> findMass ms' k = findMass ms k"
proof (induction ms arbitrary: ms')
  case Nil
  then show ?case by simp
next
  case (Cons m ms)
  from Cons.prems obtain m' ms'' where c: "ms' = m' # ms''" "m_id m' = m_id m"
    "map m_id ms'' = map m_id ms"
    by (cases ms') simp_all
  from Cons.IH[OF c(3)] c(1,2) show ?case by simp
qed

lemma map_m_id_exec: "map m_id (masses (exec e a)) = map m_id (masses e)"
proof (cases a)
  case (ToggleFixed k)
  then show ?thesis
    by (auto simp: toggleFixed_def getMassById_def Let_def map_update list_update_same_conv
        dest: findMass_Some split: option.splits)
next
  case Reset
  then show ?thesis
    by (simp add: reset_def resetMass_def Let_def split: option.splits)
qed (simp_all add: moved_map_m_id moved_update_step moved_applyForce moved_applyImpulse
    moved_applyWind moved_applyExplosion)

lemma originalPositions_exec [simp]: "originalPositions (exec e a) = originalPositions e"
  by (cases a)
    (simp_all add: update_def applyForces_def integrate_def applyConstraints_def
      handleCollisions_def clearForces_def applyForce_def applyImpulse_def applyWind_def
      applyExplosion_def toggleFixed_def getMassById_def reset_def enable_def disable_def
      setGravity_def setStiffness_def setDamping_def Let_def split: option.splits)

lemma originalPositions_reset [simp]: "originalPositions (reset e) = originalPositions e"
  by (simp add: reset_def)

lemma moved_fixed:
  assumes "moved m m'" and "fixed m"
  shows "fixed m' \<and> position m' = position m \<and> velocity m' = velocity m \<and>
     (force m' = force m \<or> force m' = zero3)"
proof -
  from assms(1) have "fixed m' = fixed m"
    by (blast dest: moved_fields)
  moreover from assms have "position m' = position m \<and> velocity m' = velocity m \<and>
     (force m' = force m \<or> force m' = zero3)"
    unfolding moved_def by blast
  ultimately show ?thesis
    using assms(2) by blast
qed

lemma moved_exec:
  assumes "\<forall>k. a \<noteq> ToggleFixed k" and "a \<noteq> Reset"
  shows "list_all2 moved (masses e) (masses (exec e a))"
  using assms
  by (cases a)
    (simp_all add: moved_update_step moved_applyForce moved_applyImpulse moved_applyWind
      moved_applyExplosion)

lemma exec_fixed_index:
  assumes i: "i < length (masses e)" and f: "fixed (masses e ! i)"
    and t: "\<forall>k. a = ToggleFixed k \<longrightarrow> findMass (masses e) k \<noteq> Some i"
  shows "fixed (masses (exec e a) ! i) \<and>
     (a \<noteq> Reset \<longrightarrow>
        position (masses (exec e a) ! i) = position (masses e ! i) \<and>
        velocity (masses (exec e a) ! i) = velocity (masses e ! i) \<and>
        (force (masses (exec e a) ! i) = force (masses e ! i) \<or>
         force (masses (exec e a) ! i) = zero3)) \<and>
     (a = Reset \<longrightarrow>
        position (masses (exec e a) ! i) =
          (case originalPositions e (m_id (masses e ! i)) of
             Some p \<Rightarrow> p | None \<Rightarrow> position (masses e ! i)) \<and>
        velocity (masses (exec e a) ! i) = zero3 \<and>
        force (masses (exec e a) ! i) = zero3)"
proof (cases "a = Reset")
  case True
  with i f show ?thesis
    by (simp add: reset_def resetMass_def Let_def zero3_def split: option.splits)
next
  case nr: False
  show ?thesis
  proof (cases "\<exists>k. a = ToggleFixed k")
    case True
    then obtain k where k: "a = ToggleFixed k" by blast
    with t have "findMass (masses e) k \<noteq> Some i" by simp
    then have "masses (exec e a) ! i = masses e ! i"
      by (auto simp: k toggleFixed_def getMassById_def Let_def split: option.splits)
    with f nr show ?thesis by simp
  next
    case False
    then have "list_all2 moved (masses e) (masses (exec e a))"
      using nr by (intro moved_exec) simp_all
    from moved_fixed[OF moved_nth[OF this i] f] nr show ?thesis
      by blast
  qed
qed

lemma fixed_mass_run:
  assumes "i < length (masses e)" and "fixed (masses e ! i)"
    and "\<forall>k. ToggleFixed k \<in> set ops \<longrightarrow> findMass (masses e) k \<noteq> Some i"
  shows "fixed (masses (run e ops) ! i) \<and>
     (force (masses (run e ops) ! i) = force (masses e ! i) \<or>
      force (masses (run e ops) ! i) = zero3) \<and>
     (Reset \<notin> set ops \<longrightarrow>
        position (masses (run e ops) ! i) = position (masses e ! i) \<and>
        velocity (masses (run e ops) ! i) = velocity (masses e ! i)) \<and>
     (Reset \<in> set ops \<longrightarrow>
        position (masses (run e ops) ! i) =
          (case originalPositions e (m_id (masses e ! i)) of
             Some p \<Rightarrow> p | None \<Rightarrow> position (masses e ! i)) \<and>
        velocity (masses (run e ops) ! i) = zero3 \<and>
        force (masses (run e ops) ! i) = zero3)"
  using assms
proof (induction ops arbitrary: e)
  case Nil
  then show ?case by simp
next
  case (Cons a as)
  let ?e1 = "exec e a"
  have t: "\<forall>k. a = ToggleFixed k \<longrightarrow> findMass (masses e) k \<noteq> Some i"
    using Cons.prems(3) by simp
  note s = exec_fixed_index[OF Cons.prems(1,2) t]
  have id: "m_id (masses ?e1 ! i) = m_id (masses e ! i)"
    using arg_cong[OF map_m_id_exec[of e a], of "\<lambda>xs. xs ! i"] Cons.prems(1)
    by simp
  have fm: "findMass (masses ?e1) k = findMass (masses e) k" for k
    by (rule findMass_map_m_id) (rule map_m_id_exec)
  have ih: "fixed (masses (run ?e1 as) ! i) \<and>
     (force (masses (run ?e1 as) ! i) = force (masses ?e1 ! i) \<or>
      force (masses (run ?e1 as) ! i) = zero3) \<and>
     (Reset \<notin> set as \<longrightarrow>
        position (masses (run ?e1 as) ! i) = position (masses ?e1 ! i) \<and>
        velocity (masses (run ?e1 as) ! i) = velocity (masses ?e1 ! i)) \<and>
     (Reset \<in> set as \<longrightarrow>
        position (masses (run ?e1 as) ! i) =
          (case originalPositions ?e1 (m_id (masses ?e1 ! i)) of
             Some p \<Rightarrow> p | None \<Rightarrow> position (masses ?e1 ! i)) \<and>
        velocity (masses (run ?e1 as) ! i) = zero3 \<and>
        force (masses (run ?e1 as) ! i) = zero3)"
    using Cons.prems(1,3) s by (intro Cons.IH) (simp_all add: fm)
  let ?m = "masses e ! i" and ?m1 = "masses ?e1 ! i" and ?m' = "masses (run ?e1 as) ! i"
  have op1: "originalPositions ?e1 (m_id ?m1) = originalPositions e (m_id ?m)"
    by (simp add: id)
  show ?case
  proof (cases "a = Reset")
    case True
    with s have s': "position ?m1 = (case originalPositions e (m_id ?m) of
             Some p \<Rightarrow> p | None \<Rightarrow> position ?m)" "velocity ?m1 = zero3" "force ?m1 = zero3"
      by simp_all
    have r: "Reset \<in> set (a # as)" using True by simp
    have "position ?m' = (case originalPositions e (m_id ?m) of
             Some p \<Rightarrow> p | None \<Rightarrow> position ?m)"
    proof (cases "Reset \<in> set as")
      case True
      with ih have "position ?m' = (case originalPositions e (m_id ?m) of
             Some p \<Rightarrow> p | None \<Rightarrow> position ?m1)"
        unfolding op1 by blast
      with s'(1) show ?thesis
        by (cases "originalPositions e (m_id ?m)") simp_all
    next
      case False
      with ih s'(1) show ?thesis by simp
    qed
    moreover have "velocity ?m' = zero3 \<and> force ?m' = zero3"
      using ih s'(2,3) by (cases "Reset \<in> set as") auto
    ultimately show ?thesis
      using ih r by simp
  next
    case False
    with s have s': "position ?m1 = position ?m" "velocity ?m1 = velocity ?m"
      "force ?m1 = force ?m \<or> force ?m1 = zero3"
      by simp_all
    have r: "Reset \<in> set (a # as) \<longleftrightarrow> Reset \<in> set as"
      using False by auto
    from ih show ?thesis
      unfolding op1 r s'(1,2) using s'(3) by auto
  qed
qed

lemma enable_scenarioEngine_eval:
  "masses (enable scenarioEngine) = masses scenarioEngine"
  "originalPositions (enable scenarioEngine) = originalPositions scenarioEngine"
  by (simp_all add: enable_def)

lemma run_append: "run e (as @ bs) = run (run e as) bs"
  by (induction as arbitrary: e) simp_all

lemma map_m_id_run: "map m_id (masses (run e as)) = map m_id (masses e)"
  by (induction as arbitrary: e) (simp_all add: map_m_id_exec)

lemma exec_fixed_same:
  assumes i: "i < length (masses e)" and f: "fixed (masses e ! i)"
    and t: "\<forall>k. a = ToggleFixed k \<longrightarrow> findMass (masses e) k \<noteq> Some i"
    and r: "a \<noteq> Reset" and s: "\<forall>dt. a \<noteq> Step dt"
  shows "masses (exec e a) ! i = masses e ! i"
proof (cases a)
  case (Step dt)
  with s show ?thesis by simp
next
  case (ApplyForce k v)
  with f show ?thesis
    by (cases "findMass (masses e) k = Some i")
      (auto simp: applyForce_def Let_def split: option.splits)
next
  case (ApplyImpulse k v)
  with f show ?thesis
    by (cases "findMass (masses e) k = Some i")
      (auto simp: applyImpulse_def Let_def split: option.splits)
next
  case (ApplyWind w)
  with i f show ?thesis
    by (simp add: applyWind_def windMass_def)
next
  case (ApplyExplosion c R F)
  with i f show ?thesis
    by (simp add: applyExplosion_def explodeMass_def)
next
  case (ToggleFixed k)
  with t have "findMass (masses e) k \<noteq> Some i" by simp
  with ToggleFixed show ?thesis
    by (auto simp: toggleFixed_def getMassById_def Let_def split: option.splits)
next
  case Reset
  with r show ?thesis by simp
qed simp_all

lemma run_fixed_same:
  assumes "i < length (masses e)" and "fixed (masses e ! i)"
    and "\<forall>k. ToggleFixed k \<in> set ops \<longrightarrow> findMass (masses e) k \<noteq> Some i"
    and "Reset \<notin> set ops" and "\<forall>dt. Step dt \<notin> set ops"
  shows "masses (run e ops) ! i = masses e ! i"
  using assms
proof (induction ops arbitrary: e)
  case Nil
  show ?case by simp
next
  case (Cons a as)
  have same: "masses (exec e a) ! i = masses e ! i"
    using Cons.prems by (intro exec_fixed_same) auto
  have fm: "findMass (masses (exec e a)) k = findMass (masses e) k" for k
    by (rule findMass_map_m_id) (rule map_m_id_exec)
  have "masses (run (exec e a) as) ! i = masses (exec e a) ! i"
    using Cons.prems same by (intro Cons.IH) (auto simp: fm)
  with same show ?case by simp
qed

text \<open>
  Claim C2, as amended. \<^verbatim>\<open>toggleFixed\<close> only flips the flag: it zeroes neither the
  velocity nor the force of the mass that becomes fixed, and \<^verbatim>\<open>reset\<close> moves a fixed
  mass to the snapshot of its id. What holds for a mass that is fixed, along any
  sequence of \<^verbatim>\<open>update\<close>, \<^verbatim>\<open>applyForce\<close>, \<^verbatim>\<open>applyImpulse\<close>, \<^verbatim>\<open>applyWind\<close>,
  \<^verbatim>\<open>applyExplosion\<close>, \<^verbatim>\<open>reset\<close>, the configuration setters and \<^verbatim>\<open>toggleFixed\<close> of other
  masses: it stays fixed; its force is the one it had or zero; without a \<^verbatim>\<open>reset\<close> in
  the sequence its position and velocity are the ones it had; with a \<^verbatim>\<open>reset\<close> in the
  sequence its velocity and force are zero and its position is the snapshot stored
  for its id; with neither a \<^verbatim>\<open>reset\<close> nor a step in the sequence the mass is exactly
  as it was. An enabled step with a positive time step changes nothing of a fixed mass
  but its force, which it clears; so after a sequence that contains such a step the
  force is zero.
\<close>

theorem fixed_mass_is_kept:
  assumes "i < length (masses e)" and "fixed (masses e ! i)"
    and "\<forall>k. ToggleFixed k \<in> set ops \<longrightarrow> findMass (masses e) k \<noteq> Some i"
  shows "fixed (masses (run e ops) ! i) \<and>
     (force (masses (run e ops) ! i) = force (masses e ! i) \<or>
      force (masses (run e ops) ! i) = zero3) \<and>
     (Reset \<notin> set ops \<longrightarrow>
        position (masses (run e ops) ! i) = position (masses e ! i) \<and>
        velocity (masses (run e ops) ! i) = velocity (masses e ! i)) \<and>
     (Reset \<in> set ops \<longrightarrow>
        position (masses (run e ops) ! i) =
          (case originalPositions e (m_id (masses e ! i)) of
             Some p \<Rightarrow> p | None \<Rightarrow> position (masses e ! i)) \<and>
        velocity (masses (run e ops) ! i) = zero3 \<and>
        force (masses (run e ops) ! i) = zero3) \<and>
     (Reset \<notin> set ops \<and> (\<forall>dt. Step dt \<notin> set ops) \<longrightarrow>
        masses (run e ops) ! i = masses e ! i) \<and>
     (enabled e \<and> 0 < (case dt of None \<Rightarrow> timeStep e | Some d \<Rightarrow> d) \<longrightarrow>
        masses (snd (update e dt)) ! i = (masses e ! i)\<lparr>force := zero3\<rparr>) \<and>
     (\<forall>ops1 dt1 ops2.
        ops = ops1 @ Step dt1 # ops2 \<and> enabled (run e ops1) \<and>
        0 < (case dt1 of None \<Rightarrow> timeStep (run e ops1) | Some d \<Rightarrow> d) \<longrightarrow>
        force (masses (run e ops) ! i) = zero3)"
proof -
  note old = fixed_mass_run[OF assms]
  have same: "masses (run e ops) ! i = masses e ! i"
    if "Reset \<notin> set ops \<and> (\<forall>dt. Step dt \<notin> set ops)"
    using that assms by (intro run_fixed_same) blast+
  have step_fixed_index: "masses (snd (update g h)) ! i = (masses g ! i)\<lparr>force := zero3\<rparr>"
    if en: "enabled g" and dt: "0 < (case h of None \<Rightarrow> timeStep g | Some d \<Rightarrow> d)"
      and i: "i < length (masses g)" and f: "fixed (masses g ! i)" for g h
  proof -
    let ?m = "masses g ! i" and ?m' = "masses (snd (update g h)) ! i"
    have mv: "moved ?m ?m'"
      by (rule moved_nth[OF moved_update_step i])
    then have eq: "?m' = ?m\<lparr>position := position ?m', velocity := velocity ?m', force := force ?m'\<rparr>"
      unfolding moved_def by blast
    from moved_fixed[OF mv f] have pv: "position ?m' = position ?m" "velocity ?m' = velocity ?m"
      by blast+
    have fz: "force ?m' = zero3"
      using en dt i by (simp add: update_def Let_def clearForces_def zero3_def)
    have "?m\<lparr>position := position ?m', velocity := velocity ?m', force := force ?m'\<rparr> =
        ?m\<lparr>force := zero3\<rparr>"
      unfolding pv fz by simp
    with eq show ?thesis by simp
  qed
  have one: "masses (snd (update e dt)) ! i = (masses e ! i)\<lparr>force := zero3\<rparr>"
    if "enabled e \<and> 0 < (case dt of None \<Rightarrow> timeStep e | Some d \<Rightarrow> d)"
    using that assms(1,2) by (intro step_fixed_index) blast+
  have seq: "force (masses (run e ops) ! i) = zero3"
    if h: "ops = ops1 @ Step dt1 # ops2 \<and> enabled (run e ops1) \<and>
        0 < (case dt1 of None \<Rightarrow> timeStep (run e ops1) | Some d \<Rightarrow> d)"
    for ops1 dt1 ops2
  proof -
    let ?e1 = "run e ops1"
    let ?e2 = "snd (update ?e1 dt1)"
    from h have o: "ops = ops1 @ Step dt1 # ops2" and en: "enabled ?e1"
      and dt: "0 < (case dt1 of None \<Rightarrow> timeStep ?e1 | Some d \<Rightarrow> d)"
      by blast+
    have t1: "\<forall>k. ToggleFixed k \<in> set ops1 \<longrightarrow> findMass (masses e) k \<noteq> Some i"
      using assms(3) o by simp
    have t2: "\<forall>k. ToggleFixed k \<in> set ops2 \<longrightarrow> findMass (masses e) k \<noteq> Some i"
      using assms(3) o by simp
    have i1: "i < length (masses ?e1)"
      using assms(1) by simp
    have f1: "fixed (masses ?e1 ! i)"
      using fixed_mass_run[OF assms(1,2) t1] by blast
    have m2: "masses ?e2 ! i = (masses ?e1 ! i)\<lparr>force := zero3\<rparr>"
      by (rule step_fixed_index[OF en dt i1 f1])
    have i2: "i < length (masses ?e2)"
      using assms(1) by simp
    have f2: "fixed (masses ?e2 ! i)" "force (masses ?e2 ! i) = zero3"
      using f1 by (simp_all add: m2)
    have "map m_id (masses ?e2) = map m_id (masses e)"
      using map_m_id_exec[of ?e1 "Step dt1"] map_m_id_run[of e ops1] by simp
    then have fm: "findMass (masses ?e2) k = findMass (masses e) k" for k
      by (rule findMass_map_m_id)
    have t2': "\<forall>k. ToggleFixed k \<in> set ops2 \<longrightarrow> findMass (masses ?e2) k \<noteq> Some i"
      using t2 by (simp add: fm)
    have r: "run e ops = run ?e2 ops2"
      unfolding o by (simp add: run_append)
    from fixed_mass_run[OF i2 f2(1) t2'] f2(2) show ?thesis
      unfolding r by auto
  qed
  from old same one seq show ?thesis
    by blast
qed

lemma forced_eval:
  "masses (run (enable scenarioEngine) forcedOps) =
     [\<lparr>m_id = ''A'', position = \<lparr>vec_x = 0, vec_y = 0, vec_z = 0\<rparr>,
       originalPosition = \<lparr>vec_x = 0, vec_y = 0, vec_z = 0\<rparr>,
       velocity = \<lparr>vec_x = 0, vec_y = 0, vec_z = 0\<rparr>,
       force = \<lparr>vec_x = 0, vec_y = 0, vec_z = 0\<rparr>, mass = 10, fixed = True,
       m_group = ''torso'', m_type = ''joint''\<rparr>,
      \<lparr>m_id = ''B'', position = \<lparr>vec_x = 0, vec_y = - 10, vec_z = 0\<rparr>,
       originalPosition = \<lparr>vec_x = 0, vec_y = - 10, vec_z = 0\<rparr>,
       velocity = \<lparr>vec_x = 0, vec_y = 0, vec_z = 0\<rparr>,
       force = \<lparr>vec_x = 1, vec_y = 2, vec_z = 3\<rparr>, mass = 10, fixed = True,
       m_group = ''torso'', m_type = ''surface''\<rparr>]"
  "enabled (run (enable scenarioEngine) forcedOps)"
  by (simp_all add: forcedOps_def enable_def scenarioEngine_eval applyForce_def toggleFixed_def
      getMassById_def force123_def)

theorem fixed_mass_is_kept_witness:
  "(0::nat) < length (masses (enable scenarioEngine)) \<and>
   fixed (masses (enable scenarioEngine) ! 0) \<and>
   findMass (masses (enable scenarioEngine)) ''B'' \<noteq> Some 0 \<and>
   fixed (masses (run (enable scenarioEngine) keptOps) ! 0) \<and>
   position (masses (run (enable scenarioEngine) keptOps) ! 0) = zero3 \<and>
   velocity (masses (run (enable scenarioEngine) keptOps) ! 0) = zero3 \<and>
   fixed (masses (run (enable scenarioEngine) (keptOps @ [Reset])) ! 0) \<and>
   position (masses (run (enable scenarioEngine) (keptOps @ [Reset])) ! 0) = zero3 \<and>
   velocity (masses (run (enable scenarioEngine) (keptOps @ [Reset])) ! 0) = zero3 \<and>
   force (masses (run (enable scenarioEngine) (keptOps @ [Reset])) ! 0) = zero3 \<and>
   (1::nat) < length (masses (run (enable scenarioEngine) forcedOps)) \<and>
   fixed (masses (run (enable scenarioEngine) forcedOps) ! 1) \<and>
   force (masses (run (enable scenarioEngine) forcedOps) ! 1) = force123 \<and>
   force (masses (run (run (enable scenarioEngine) forcedOps) [ApplyWind force123]) ! 1) = force123 \<and>
   enabled (run (enable scenarioEngine) forcedOps) \<and>
   force (masses (snd (update (run (enable scenarioEngine) forcedOps) (Some 1))) ! 1) = zero3 \<and>
   position (masses (snd (update (run (enable scenarioEngine) forcedOps) (Some 1))) ! 1) =
     \<lparr>vec_x = 0, vec_y = - 10, vec_z = 0\<rparr> \<and>
   force (masses (run (run (enable scenarioEngine) forcedOps)
     [ApplyWind force123, Step (Some 1), ApplyWind force123]) ! 1) = zero3 \<and>
   masses (run (enable scenarioEngine) keptOps) ! 0 = masses (enable scenarioEngine) ! 0 \<and>
   masses (run (run (enable scenarioEngine) forcedOps)
     [ApplyWind force123, Step (Some 1), ApplyWind force123]) ! 1 =
     (masses (run (enable scenarioEngine) forcedOps) ! 1)\<lparr>force := zero3\<rparr> \<and>
   masses (run (enable scenarioEngine) pushOps) ! 0 = masses (enable scenarioEngine) ! 0 \<and>
   force (masses (run (enable scenarioEngine) pushOps) ! 0) = zero3 \<and>
   velocity (masses (run (enable scenarioEngine) pushOps) ! 0) = zero3 \<and>
   force (masses (run (enable scenarioEngine) pushOps) ! 1) =
     \<lparr>vec_x = 10, vec_y = 20 - 275 / 10, vec_z = 30\<rparr>"
proof -
  let ?e = "enable scenarioEngine"
  let ?g = "run (enable scenarioEngine) forcedOps"
  have a: "0 < length (masses ?e)" "fixed (masses ?e ! 0)"
    by (simp_all add: enable_def scenarioEngine_eval)
  have b: "findMass (masses ?e) ''B'' \<noteq> Some 0"
    by (simp add: enable_def scenarioEngine_eval)
  have t1: "\<forall>k. ToggleFixed k \<in> set keptOps \<longrightarrow> findMass (masses ?e) k \<noteq> Some 0"
    using b by (simp add: keptOps_def)
  have t2: "\<forall>k. ToggleFixed k \<in> set (keptOps @ [Reset]) \<longrightarrow> findMass (masses ?e) k \<noteq> Some 0"
    using b by (simp add: keptOps_def)
  have r: "Reset \<notin> set keptOps" "Reset \<in> set (keptOps @ [Reset])"
    by (simp_all add: keptOps_def)
  have v: "position (masses ?e ! 0) = zero3" "velocity (masses ?e ! 0) = zero3"
    "originalPositions ?e (m_id (masses ?e ! 0)) = Some zero3"
    by (simp_all add: enable_def scenarioEngine_eval zero3_def)
  from fixed_mass_is_kept[OF a t1] fixed_mass_is_kept[OF a t2] r v
  have first: "fixed (masses (run ?e keptOps) ! 0) \<and>
   position (masses (run ?e keptOps) ! 0) = zero3 \<and>
   velocity (masses (run ?e keptOps) ! 0) = zero3 \<and>
   fixed (masses (run ?e (keptOps @ [Reset])) ! 0) \<and>
   position (masses (run ?e (keptOps @ [Reset])) ! 0) = zero3 \<and>
   velocity (masses (run ?e (keptOps @ [Reset])) ! 0) = zero3 \<and>
   force (masses (run ?e (keptOps @ [Reset])) ! 0) = zero3"
    by simp
  have g: "1 < length (masses ?g)" "fixed (masses ?g ! 1)" "force (masses ?g ! 1) = force123"
    "enabled ?g" "position (masses ?g ! 1) = \<lparr>vec_x = 0, vec_y = - 10, vec_z = 0\<rparr>"
    by (simp_all add: forced_eval force123_def)
  have w: "\<forall>k. ToggleFixed k \<in> set [ApplyWind force123] \<longrightarrow> findMass (masses ?g) k \<noteq> Some 1"
    "\<forall>k. ToggleFixed k \<in> set [ApplyWind force123, Step (Some 1), ApplyWind force123] \<longrightarrow>
       findMass (masses ?g) k \<noteq> Some 1"
    by simp_all
  note u1 = fixed_mass_is_kept[OF g(1,2) w(1), where dt = "Some 1"]
  note u2 = fixed_mass_is_kept[OF g(1,2) w(2)]
  have n: "Reset \<notin> set [ApplyWind force123] \<and> (\<forall>dt. Step dt \<notin> set [ApplyWind force123])"
    by simp
  from u1 n have "masses (run ?g [ApplyWind force123]) ! 1 = masses ?g ! 1"
    by blast
  then have s1: "force (masses (run ?g [ApplyWind force123]) ! 1) = force123"
    using g(3) by simp
  have p: "enabled ?g \<and> 0 < (case Some (1::real) of None \<Rightarrow> timeStep ?g | Some d \<Rightarrow> d)"
    using g(4) by simp
  from u1 p have "masses (snd (update ?g (Some 1))) ! 1 = (masses ?g ! 1)\<lparr>force := zero3\<rparr>"
    by blast
  then have s2: "force (masses (snd (update ?g (Some 1))) ! 1) = zero3"
    "position (masses (snd (update ?g (Some 1))) ! 1) = \<lparr>vec_x = 0, vec_y = - 10, vec_z = 0\<rparr>"
    using g(5) by simp_all
  have q: "[ApplyWind force123, Step (Some 1), ApplyWind force123] =
      [ApplyWind force123] @ Step (Some 1) # [ApplyWind force123] \<and>
      enabled (run ?g [ApplyWind force123]) \<and>
      0 < (case Some (1::real) of None \<Rightarrow> timeStep (run ?g [ApplyWind force123]) | Some d \<Rightarrow> d)"
    using g(4) by simp
  from u2 q have s3: "force (masses (run ?g [ApplyWind force123, Step (Some 1), ApplyWind force123]) ! 1) = zero3"
    by blast
  have ev: "masses (run ?e keptOps) ! 0 = masses ?e ! 0"
    "masses (run ?g [ApplyWind force123, Step (Some 1), ApplyWind force123]) ! 1 =
       (masses ?g ! 1)\<lparr>force := zero3\<rparr>"
    by (simp_all add: keptOps_def forcedOps_def enable_def scenarioEngine_eval force123_def
        zero3_def applyForce_def applyImpulse_def applyWind_def windMass_def applyExplosion_def
        explodeMass_def toggleFixed_def getMassById_def update_def applyForces_def
        applyGravity_def applySpringForce_def integrate_def integrateMass_def
        applyConstraints_def constraintLoop_three constraintPass_def handleCollisions_def
        collideMass_def clearForces_def Let_def)
  have t3: "\<forall>k. ToggleFixed k \<in> set pushOps \<longrightarrow> findMass (masses ?e) k \<noteq> Some 0"
    by (simp add: pushOps_def)
  have n3: "Reset \<notin> set pushOps \<and> (\<forall>dt. Step dt \<notin> set pushOps)"
    by (simp add: pushOps_def)
  from fixed_mass_is_kept[OF a t3] n3
  have s4: "masses (run ?e pushOps) ! 0 = masses ?e ! 0"
    by blast
  have ev2: "force (masses (run ?e pushOps) ! 0) = zero3"
    "velocity (masses (run ?e pushOps) ! 0) = zero3"
    "force (masses (run ?e pushOps) ! 1) = \<lparr>vec_x = 10, vec_y = 20 - 275 / 10, vec_z = 30\<rparr>"
    by (simp_all add: pushOps_def enable_def scenarioEngine_eval force123_def zero3_def
        applyForce_def applyImpulse_def applyWind_def windMass_def applyExplosion_def
        explodeMass_def Let_def)
  from a b first g(1,2,3,4) s1 s2 s3 ev s4 ev2 show ?thesis
    by simp
qed

text \<open>
  Claim C2 as stated fails: after one step the surface point \<open>B\<close> of the scenario
  moves at \<open>-9.31\<close> along \<open>y\<close>; \<^verbatim>\<open>toggleFixed\<close> then makes it fixed with that velocity,
  and a later \<^verbatim>\<open>reset\<close> moves the fixed mass from \<open>y = -19.31\<close> back to \<open>y = -10\<close>.
\<close>

theorem fixed_mass_counterexample:
  "fixed (masses (run (enable scenarioEngine) [Step (Some 1), ToggleFixed ''B'']) ! 1) \<and>
   velocity (masses (run (enable scenarioEngine) [Step (Some 1), ToggleFixed ''B'']) ! 1) =
     \<lparr>vec_x = 0, vec_y = - (931 / 100), vec_z = 0\<rparr> \<and>
   velocity (masses (run (enable scenarioEngine) [Step (Some 1), ToggleFixed ''B'']) ! 1) \<noteq> zero3 \<and>
   position (masses (run (enable scenarioEngine) [Step (Some 1), ToggleFixed ''B'']) ! 1) =
     \<lparr>vec_x = 0, vec_y = - (1931 / 100), vec_z = 0\<rparr> \<and>
   fixed (masses (run (enable scenarioEngine) [Step (Some 1), ToggleFixed ''B'', Reset]) ! 1) \<and>
   position (masses (run (enable scenarioEngine) [Step (Some 1), ToggleFixed ''B'', Reset]) ! 1) =
     \<lparr>vec_x = 0, vec_y = - 10, vec_z = 0\<rparr>"
  by (simp add: enable_def scenarioEngine_eval update_def applyForces_def applyGravity_def
      applySpringForce_def integrate_def integrateMass_def applyConstraints_def
      constraintLoop_three constraintPass_def handleCollisions_def collideMass_def
      clearForces_def toggleFixed_def getMassById_def reset_def resetMass_def Let_def zero3_def)

subsection \<open>Reset\<close>

lemma setOriginalPositions_other:
  "k \<notin> v_id ` set vs \<Longrightarrow> setOriginalPositions M vs k = M k"
  by (induction vs arbitrary: M) simp_all

lemma setOriginalPositions_distinct:
  "distinct (map v_id vs) \<Longrightarrow> i < length vs \<Longrightarrow>
     setOriginalPositions M vs (v_id (vs ! i)) =
       Some \<lparr>vec_x = v_x (vs ! i), vec_y = v_y (vs ! i), vec_z = v_z (vs ! i)\<rparr>"
proof (induction vs arbitrary: M i)
  case Nil
  then show ?case by simp
next
  case (Cons v vs)
  show ?case
  proof (cases i)
    case 0
    with Cons.prems show ?thesis
      by (simp add: setOriginalPositions_other)
  next
    case (Suc j)
    with Cons.prems Cons.IH[of j] show ?thesis by simp
  qed
qed

lemma masses_parsePhysicsData [simp]:
  "masses (parsePhysicsData e md) = map mkMass (vertices md)"
  by (simp add: parsePhysicsData_def Let_def addCollisionConstraints_def addJointConstraints_def)

lemma originalPositions_parsePhysicsData [simp]:
  "originalPositions (parsePhysicsData e md) = setOriginalPositions Map.empty (vertices md)"
  by (simp add: parsePhysicsData_def Let_def addCollisionConstraints_def addJointConstraints_def)

lemma map_list_update_same: "(map g ms)[i := g (ms ! i)] = map g ms"
  by (metis list_update_id map_update)

lemma map_originalPosition_exec:
  "map originalPosition (masses (exec e a)) = map originalPosition (masses e)"
proof -
  have m: "map originalPosition ms' = map originalPosition ms" if "list_all2 moved ms ms'" for ms ms'
    using that by (induction rule: list_all2_induct) (auto dest: moved_fields)
  show ?thesis
  proof (cases "(\<exists>k. a = ToggleFixed k) \<or> a = Reset")
    case True
    then show ?thesis
    proof
      assume "\<exists>k. a = ToggleFixed k"
      then show ?thesis
        by (auto simp: toggleFixed_def getMassById_def Let_def map_update map_list_update_same
          split: option.splits)
    next
      assume "a = Reset"
      then show ?thesis
        by (simp add: reset_def resetMass_def Let_def split: option.splits)
    qed
  next
    case False
    then show ?thesis
      by (intro m moved_exec) simp_all
  qed
qed

lemma run_invariants:
  "map m_id (masses (run e as)) = map m_id (masses e) \<and>
   map originalPosition (masses (run e as)) = map originalPosition (masses e) \<and>
   originalPositions (run e as) = originalPositions e"
  by (induction as arbitrary: e) (simp_all add: map_m_id_exec map_originalPosition_exec)

lemma resetMass_idem: "resetMass M (resetMass M m) = resetMass M m"
  by (simp add: resetMass_def Let_def split: option.splits)

text \<open>
  Claim C8, as amended. In any engine state \<^verbatim>\<open>reset\<close> gives every mass zero velocity and
  zero force and the position that \<^verbatim>\<open>originalPositions\<close> stores for its id, and changes
  nothing else: \<open>enabled\<close>, \<open>gravity\<close>, \<open>stiffness\<close> and \<open>damping\<close> are as before. In
  every state reached from a construction that position is the construction position
  of the last vertex that carries the mass's id; it is the mass's own
  \<open>originalPosition\<close> when the vertex ids are distinct. A second \<^verbatim>\<open>reset\<close> changes
  nothing more.
\<close>

theorem reset_restores_and_is_idempotent:
  "length (masses (reset e)) = length (masses e) \<and>
   (\<forall>i < length (masses e).
      masses (reset e) ! i =
        (masses e ! i)\<lparr>position :=
            (case originalPositions e (m_id (masses e ! i)) of
               Some p \<Rightarrow> p | None \<Rightarrow> position (masses e ! i)),
          velocity := zero3, force := zero3\<rparr>) \<and>
   (\<forall>i < length (vertices md).
      (let w = last (filter (\<lambda>v. v_id v = v_id (vertices md ! i)) (vertices md))
       in position (masses (reset (run (parsePhysicsData e0 md) as)) ! i) =
            \<lparr>vec_x = v_x w, vec_y = v_y w, vec_z = v_z w\<rparr>) \<and>
      originalPosition (masses (run (parsePhysicsData e0 md) as) ! i) =
        \<lparr>vec_x = v_x (vertices md ! i), vec_y = v_y (vertices md ! i),
         vec_z = v_z (vertices md ! i)\<rparr>) \<and>
   (distinct (map v_id (vertices md)) \<longrightarrow>
      (\<forall>i < length (vertices md).
         position (masses (reset (run (parsePhysicsData e0 md) as)) ! i) =
           \<lparr>vec_x = v_x (vertices md ! i), vec_y = v_y (vertices md ! i),
            vec_z = v_z (vertices md ! i)\<rparr> \<and>
         position (masses (reset (run (parsePhysicsData e0 md) as)) ! i) =
           originalPosition (masses (run (parsePhysicsData e0 md) as) ! i))) \<and>
   reset e = e\<lparr>masses := masses (reset e)\<rparr> \<and>
   enabled (reset e) = enabled e \<and> gravity (reset e) = gravity e \<and>
   stiffness (reset e) = stiffness e \<and> damping (reset e) = damping e \<and>
   reset (reset e) = reset e"
proof -
  have a: "\<forall>i < length (masses e).
      masses (reset e) ! i =
        (masses e ! i)\<lparr>position :=
            (case originalPositions e (m_id (masses e ! i)) of
               Some p \<Rightarrow> p | None \<Rightarrow> position (masses e ! i)),
          velocity := zero3, force := zero3\<rparr>"
    by (simp add: reset_def resetMass_def Let_def zero3_def split: option.splits)
  have b: "position (masses (reset (run (parsePhysicsData e0 md) as)) ! i) =
           \<lparr>vec_x = v_x (vertices md ! i), vec_y = v_y (vertices md ! i),
            vec_z = v_z (vertices md ! i)\<rparr> \<and>
         position (masses (reset (run (parsePhysicsData e0 md) as)) ! i) =
           originalPosition (masses (run (parsePhysicsData e0 md) as) ! i)"
    if d: "distinct (map v_id (vertices md))" and i: "i < length (vertices md)" for i
  proof -
    let ?p = "parsePhysicsData e0 md" and ?r = "run (parsePhysicsData e0 md) as"
    note inv = run_invariants[of ?p as]
    have l: "i < length (masses ?r)" using i by simp
    have "m_id (masses ?r ! i) = m_id (masses ?p ! i)"
      using arg_cong[OF conjunct1[OF inv], of "\<lambda>xs. xs ! i"] l by simp
    then have id: "m_id (masses ?r ! i) = v_id (vertices md ! i)"
      using i by (simp add: mkMass_def)
    have "originalPosition (masses ?r ! i) = originalPosition (masses ?p ! i)"
      using arg_cong[OF conjunct1[OF conjunct2[OF inv]], of "\<lambda>xs. xs ! i"] l by simp
    then have op: "originalPosition (masses ?r ! i) =
        \<lparr>vec_x = v_x (vertices md ! i), vec_y = v_y (vertices md ! i), vec_z = v_z (vertices md ! i)\<rparr>"
      using i by (simp add: mkMass_def)
    have "originalPositions ?r (m_id (masses ?r ! i)) =
        Some \<lparr>vec_x = v_x (vertices md ! i), vec_y = v_y (vertices md ! i), vec_z = v_z (vertices md ! i)\<rparr>"
      using inv id setOriginalPositions_distinct[OF d i] by simp
    then have "position (masses (reset ?r) ! i) =
        \<lparr>vec_x = v_x (vertices md ! i), vec_y = v_y (vertices md ! i), vec_z = v_z (vertices md ! i)\<rparr>"
      using l by (simp add: reset_def resetMass_def)
    with op show ?thesis by simp
  qed
  have c: "reset (reset e) = reset e"
    by (simp add: reset_def resetMass_idem)
  have d: "reset e = e\<lparr>masses := masses (reset e)\<rparr>" "enabled (reset e) = enabled e"
    "gravity (reset e) = gravity e" "stiffness (reset e) = stiffness e" "damping (reset e) = damping e"
    by (simp_all add: reset_def)
  have l: "length (masses (reset e)) = length (masses e)"
    by simp
  have setOriginalPositions_last: "setOriginalPositions M vs k =
     (if filter (\<lambda>v. v_id v = k) vs = [] then M k
      else (let w = last (filter (\<lambda>v. v_id v = k) vs)
            in Some \<lparr>vec_x = v_x w, vec_y = v_y w, vec_z = v_z w\<rparr>))" for M vs k
    by (induction vs arbitrary: M) (simp_all add: Let_def)
  have r1: "(let w = last (filter (\<lambda>v. v_id v = v_id (vertices md ! i)) (vertices md))
          in position (masses (reset (run (parsePhysicsData e0 md) as)) ! i) =
               \<lparr>vec_x = v_x w, vec_y = v_y w, vec_z = v_z w\<rparr>) \<and>
         originalPosition (masses (run (parsePhysicsData e0 md) as) ! i) =
           \<lparr>vec_x = v_x (vertices md ! i), vec_y = v_y (vertices md ! i),
            vec_z = v_z (vertices md ! i)\<rparr>"
    if i: "i < length (vertices md)" for i
  proof -
    let ?p = "parsePhysicsData e0 md" and ?r = "run (parsePhysicsData e0 md) as"
    let ?k = "v_id (vertices md ! i)"
    note inv = run_invariants[of ?p as]
    have l: "i < length (masses ?r)" using i by simp
    have "m_id (masses ?r ! i) = m_id (masses ?p ! i)"
      using arg_cong[OF conjunct1[OF inv], of "\<lambda>xs. xs ! i"] l by simp
    then have id: "m_id (masses ?r ! i) = ?k"
      using i by (simp add: mkMass_def)
    have "originalPosition (masses ?r ! i) = originalPosition (masses ?p ! i)"
      using arg_cong[OF conjunct1[OF conjunct2[OF inv]], of "\<lambda>xs. xs ! i"] l by simp
    then have op: "originalPosition (masses ?r ! i) =
        \<lparr>vec_x = v_x (vertices md ! i), vec_y = v_y (vertices md ! i), vec_z = v_z (vertices md ! i)\<rparr>"
      using i by (simp add: mkMass_def)
    have "vertices md ! i \<in> set (filter (\<lambda>v. v_id v = ?k) (vertices md))"
      using i by simp
    then have ne: "filter (\<lambda>v. v_id v = ?k) (vertices md) \<noteq> []"
      by (metis empty_iff empty_set)
    have "originalPositions ?r (m_id (masses ?r ! i)) =
        (let w = last (filter (\<lambda>v. v_id v = ?k) (vertices md))
         in Some \<lparr>vec_x = v_x w, vec_y = v_y w, vec_z = v_z w\<rparr>)"
      using inv id ne by (simp add: setOriginalPositions_last)
    then have "(let w = last (filter (\<lambda>v. v_id v = ?k) (vertices md))
            in position (masses (reset ?r) ! i) = \<lparr>vec_x = v_x w, vec_y = v_y w, vec_z = v_z w\<rparr>)"
      using l by (simp add: reset_def resetMass_def Let_def)
    with op show ?thesis by blast
  qed
  have r: "\<forall>i < length (vertices md).
      (let w = last (filter (\<lambda>v. v_id v = v_id (vertices md ! i)) (vertices md))
       in position (masses (reset (run (parsePhysicsData e0 md) as)) ! i) =
            \<lparr>vec_x = v_x w, vec_y = v_y w, vec_z = v_z w\<rparr>) \<and>
      originalPosition (masses (run (parsePhysicsData e0 md) as) ! i) =
        \<lparr>vec_x = v_x (vertices md ! i), vec_y = v_y (vertices md ! i),
         vec_z = v_z (vertices md ! i)\<rparr>"
    using r1 by blast
  from l a r b c d show ?thesis
    by blast
qed

lemma parse_enabled_scenario: "parsePhysicsData (enable constructor) scenarioMesh = enable scenarioEngine"
  by (simp add: scenarioEngine_def scenarioMesh_def enable_def parse_eval)

lemma scenario_step_eval:
  "masses (snd (update (enable scenarioEngine) (Some 1))) =
     [\<lparr>m_id = ''A'', position = \<lparr>vec_x = 0, vec_y = 0, vec_z = 0\<rparr>,
       originalPosition = \<lparr>vec_x = 0, vec_y = 0, vec_z = 0\<rparr>,
       velocity = \<lparr>vec_x = 0, vec_y = 0, vec_z = 0\<rparr>,
       force = \<lparr>vec_x = 0, vec_y = 0, vec_z = 0\<rparr>, mass = 10, fixed = True,
       m_group = ''torso'', m_type = ''joint''\<rparr>,
      \<lparr>m_id = ''B'', position = \<lparr>vec_x = 0, vec_y = - (1931 / 100), vec_z = 0\<rparr>,
       originalPosition = \<lparr>vec_x = 0, vec_y = - 10, vec_z = 0\<rparr>,
       velocity = \<lparr>vec_x = 0, vec_y = - (931 / 100), vec_z = 0\<rparr>,
       force = \<lparr>vec_x = 0, vec_y = 0, vec_z = 0\<rparr>, mass = 10, fixed = False,
       m_group = ''torso'', m_type = ''surface''\<rparr>]"
  by (simp add: enable_def scenarioEngine_eval update_def applyForces_def applyGravity_def
      applySpringForce_def integrate_def integrateMass_def applyConstraints_def
      constraintLoop_three constraintPass_def handleCollisions_def collideMass_def
      clearForces_def Let_def)

theorem reset_restores_and_is_idempotent_witness:
  "distinct (map v_id (vertices scenarioMesh)) \<and> (1::nat) < length (vertices scenarioMesh) \<and>
   (1::nat) < length (masses (run (enable scenarioEngine) [Step (Some 1)])) \<and>
   position (masses (run (enable scenarioEngine) [Step (Some 1)]) ! 1) =
     \<lparr>vec_x = 0, vec_y = - (1931 / 100), vec_z = 0\<rparr> \<and>
   velocity (masses (run (enable scenarioEngine) [Step (Some 1)]) ! 1) =
     \<lparr>vec_x = 0, vec_y = - (931 / 100), vec_z = 0\<rparr> \<and>
   position (masses (reset (run (enable scenarioEngine) [Step (Some 1)])) ! 1) =
     \<lparr>vec_x = 0, vec_y = - 10, vec_z = 0\<rparr> \<and>
   velocity (masses (reset (run (enable scenarioEngine) [Step (Some 1)])) ! 1) = zero3 \<and>
   force (masses (reset (run (enable scenarioEngine) [Step (Some 1)])) ! 1) = zero3 \<and>
   enabled (reset (run (enable scenarioEngine) [Step (Some 1)])) \<and>
   reset (reset (run (enable scenarioEngine) [Step (Some 1)])) =
     reset (run (enable scenarioEngine) [Step (Some 1)]) \<and>
   (0::nat) < length (vertices dupMesh) \<and>
   position (masses (reset dupEngine) ! 0) = \<lparr>vec_x = 4, vec_y = 5, vec_z = 6\<rparr>"
proof -
  let ?e = "run (enable scenarioEngine) [Step (Some 1)]"
  have a: "distinct (map v_id (vertices scenarioMesh))" "1 < length (vertices scenarioMesh)"
    by (simp_all add: scenarioMesh_def)
  have b: "1 < length (masses ?e)"
    by (simp add: scenarioEngine_eval)
  have c: "position (masses ?e ! 1) = \<lparr>vec_x = 0, vec_y = - (1931 / 100), vec_z = 0\<rparr>"
    "velocity (masses ?e ! 1) = \<lparr>vec_x = 0, vec_y = - (931 / 100), vec_z = 0\<rparr>"
    by (simp_all add: scenario_step_eval)
  have d: "enabled ?e"
    by (simp add: update_def enable_def Let_def applyForces_def integrate_def applyConstraints_def
        handleCollisions_def clearForces_def)
  have v: "v_x (vertices scenarioMesh ! 1) = 0" "v_y (vertices scenarioMesh ! 1) = - 10"
    "v_z (vertices scenarioMesh ! 1) = 0"
    by (simp_all add: scenarioMesh_def)
  note t = reset_restores_and_is_idempotent[of ?e scenarioMesh "enable constructor" "[Step (Some 1)]"]
  from t b have "masses (reset ?e) ! 1 =
        (masses ?e ! 1)\<lparr>position :=
            (case originalPositions ?e (m_id (masses ?e ! 1)) of
               Some p \<Rightarrow> p | None \<Rightarrow> position (masses ?e ! 1)),
          velocity := zero3, force := zero3\<rparr>"
    by blast
  then have f: "velocity (masses (reset ?e) ! 1) = zero3" "force (masses (reset ?e) ! 1) = zero3"
    by simp_all
  from t a have "position (masses (reset ?e) ! 1) =
           \<lparr>vec_x = v_x (vertices scenarioMesh ! 1), vec_y = v_y (vertices scenarioMesh ! 1),
            vec_z = v_z (vertices scenarioMesh ! 1)\<rparr>"
    unfolding parse_enabled_scenario by blast
  then have g: "position (masses (reset ?e) ! 1) = \<lparr>vec_x = 0, vec_y = - 10, vec_z = 0\<rparr>"
    unfolding v .
  from t have h: "enabled (reset ?e) = enabled ?e" "reset (reset ?e) = reset ?e"
    by blast+
  have l: "0 < length (vertices dupMesh)"
    by (simp add: dupMesh_def)
  have w: "last (filter (\<lambda>v. v_id v = v_id (vertices dupMesh ! 0)) (vertices dupMesh)) =
      \<lparr>v_id = ''D'', v_x = 4, v_y = 5, v_z = 6, v_group = ''arm'', v_type = ''surface'',
         v_weight = 1\<rparr>"
    by (simp add: dupMesh_def)
  from reset_restores_and_is_idempotent[where md = dupMesh and ?e0.0 = constructor and as = "[]"] l
  have "(let w = last (filter (\<lambda>v. v_id v = v_id (vertices dupMesh ! 0)) (vertices dupMesh))
       in position (masses (reset (run (parsePhysicsData constructor dupMesh) [])) ! 0) =
            \<lparr>vec_x = v_x w, vec_y = v_y w, vec_z = v_z w\<rparr>)"
    by blast
  then have k: "position (masses (reset dupEngine) ! 0) = \<lparr>vec_x = 4, vec_y = 5, vec_z = 6\<rparr>"
    unfolding w Let_def by (simp add: dupEngine_def)
  from a b c d f g h l k show ?thesis
    by simp
qed

lemma dupEngine_eval:
  "masses dupEngine =
     [\<lparr>m_id = ''D'', position = \<lparr>vec_x = 1, vec_y = 2, vec_z = 3\<rparr>,
       originalPosition = \<lparr>vec_x = 1, vec_y = 2, vec_z = 3\<rparr>,
       velocity = \<lparr>vec_x = 0, vec_y = 0, vec_z = 0\<rparr>,
       force = \<lparr>vec_x = 0, vec_y = 0, vec_z = 0\<rparr>, mass = 10, fixed = False,
       m_group = ''arm'', m_type = ''surface''\<rparr>,
      \<lparr>m_id = ''D'', position = \<lparr>vec_x = 4, vec_y = 5, vec_z = 6\<rparr>,
       originalPosition = \<lparr>vec_x = 4, vec_y = 5, vec_z = 6\<rparr>,
       velocity = \<lparr>vec_x = 0, vec_y = 0, vec_z = 0\<rparr>,
       force = \<lparr>vec_x = 0, vec_y = 0, vec_z = 0\<rparr>, mass = 10, fixed = False,
       m_group = ''arm'', m_type = ''surface''\<rparr>]"
  "originalPositions dupEngine = [''D'' \<mapsto> \<lparr>vec_x = 4, vec_y = 5, vec_z = 6\<rparr>]"
  by (simp_all add: dupEngine_def dupMesh_def parse_eval)

text \<open>
  Claim C8 as stated fails when two vertices carry the same id: \<^verbatim>\<open>originalPositions\<close>
  keeps the position of the second one, and \<^verbatim>\<open>reset\<close>, right after construction, moves
  the first mass from its \<open>originalPosition\<close> \<open>(1, 2, 3)\<close> to \<open>(4, 5, 6)\<close>.
\<close>

theorem reset_duplicate_id_counterexample:
  "originalPosition (masses dupEngine ! 0) = \<lparr>vec_x = 1, vec_y = 2, vec_z = 3\<rparr> \<and>
   position (masses dupEngine ! 0) = \<lparr>vec_x = 1, vec_y = 2, vec_z = 3\<rparr> \<and>
   originalPosition (masses (reset dupEngine) ! 0) = \<lparr>vec_x = 1, vec_y = 2, vec_z = 3\<rparr> \<and>
   position (masses (reset dupEngine) ! 0) = \<lparr>vec_x = 4, vec_y = 5, vec_z = 6\<rparr> \<and>
   position (masses (reset dupEngine) ! 0) \<noteq> originalPosition (masses (reset dupEngine) ! 0)"
  by (simp add: dupEngine_eval reset_def resetMass_def)

subsection \<open>Explosion\<close>

lemma dist3_scale: "dist3 (k * a) (k * b) (k * c) = \<bar>k\<bar> * dist3 a b c"
proof -
  have "k * a * (k * a) + k * b * (k * b) + k * c * (k * c) = (k * k) * (a * a + b * b + c * c)"
    by (simp add: algebra_simps)
  then show ?thesis
    by (simp add: dist3_def real_sqrt_mult)
qed

lemma dist3_unit:
  assumes "0 < dist3 a b c"
  shows "dist3 (a / dist3 a b c) (b / dist3 a b c) (c / dist3 a b c) = 1"
proof -
  let ?r = "dist3 a b c"
  have "dist3 (1 / ?r * a) (1 / ?r * b) (1 / ?r * c) = \<bar>1 / ?r\<bar> * ?r"
    by (rule dist3_scale)
  with assms show ?thesis by simp
qed

text \<open>
  Claim C7. \<^verbatim>\<open>applyExplosion(center, radius, force)\<close> changes nothing but force
  accumulators. A mass that is not fixed and lies at a distance \<open>r\<close> from the centre
  with \<open>0 < r < radius\<close> gets added to its force the vector \<open>k\<close> times the unit vector
  from the centre to the mass, where \<open>k = force * mass * (radius - r) / radius\<close>; the
  added vector has length \<open>\<bar>k\<bar>\<close>. Every other mass (fixed, at the centre, or at
  \<open>r \<ge> radius\<close>) is left as it is.
\<close>

theorem applyExplosion_law:
  "length (masses (applyExplosion e c R F)) = length (masses e) \<and>
   applyExplosion e c R F = e\<lparr>masses := masses (applyExplosion e c R F)\<rparr> \<and>
   (\<forall>i < length (masses e).
      (let m = masses e ! i; m' = masses (applyExplosion e c R F) ! i;
           dx = vec_x (position m) - vec_x c;
           dy = vec_y (position m) - vec_y c;
           dz = vec_z (position m) - vec_z c;
           r = dist3 dx dy dz;
           k = F * mass m * (R - r) / R
       in if \<not> fixed m \<and> 0 < r \<and> r < R
          then m' = m\<lparr>force := \<lparr>vec_x = vec_x (force m) + k * (dx / r),
                                  vec_y = vec_y (force m) + k * (dy / r),
                                  vec_z = vec_z (force m) + k * (dz / r)\<rparr>\<rparr> \<and>
               dist3 (dx / r) (dy / r) (dz / r) = 1 \<and>
               dist3 (k * (dx / r)) (k * (dy / r)) (k * (dz / r)) = \<bar>k\<bar>
          else m' = m))"
proof -
  have one: "(let m = masses e ! i; m' = masses (applyExplosion e c R F) ! i;
           dx = vec_x (position m) - vec_x c;
           dy = vec_y (position m) - vec_y c;
           dz = vec_z (position m) - vec_z c;
           r = dist3 dx dy dz;
           k = F * mass m * (R - r) / R
       in if \<not> fixed m \<and> 0 < r \<and> r < R
          then m' = m\<lparr>force := \<lparr>vec_x = vec_x (force m) + k * (dx / r),
                                  vec_y = vec_y (force m) + k * (dy / r),
                                  vec_z = vec_z (force m) + k * (dz / r)\<rparr>\<rparr> \<and>
               dist3 (dx / r) (dy / r) (dz / r) = 1 \<and>
               dist3 (k * (dx / r)) (k * (dy / r)) (k * (dz / r)) = \<bar>k\<bar>
          else m' = m)" if i: "i < length (masses e)" for i
  proof -
    define m where "m = masses e ! i"
    define dx where "dx = vec_x (position m) - vec_x c"
    define dy where "dy = vec_y (position m) - vec_y c"
    define dz where "dz = vec_z (position m) - vec_z c"
    define r where "r = dist3 dx dy dz"
    define k where "k = F * mass m * (R - r) / R"
    have m': "masses (applyExplosion e c R F) ! i = explodeMass c R F m"
      using i by (simp add: applyExplosion_def m_def)
    have no: "explodeMass c R F m = m" if "\<not> (\<not> fixed m \<and> 0 < r \<and> r < R)"
      using that by (auto simp: explodeMass_def Let_def r_def dx_def dy_def dz_def)
    have yes: "explodeMass c R F m =
        m\<lparr>force := \<lparr>vec_x = vec_x (force m) + k * (dx / r),
                       vec_y = vec_y (force m) + k * (dy / r),
                       vec_z = vec_z (force m) + k * (dz / r)\<rparr>\<rparr>"
      if "\<not> fixed m \<and> 0 < r \<and> r < R"
      using that by (simp add: explodeMass_def Let_def r_def dx_def dy_def dz_def k_def)
    have u: "dist3 (dx / r) (dy / r) (dz / r) = 1" if "0 < r"
      using that unfolding r_def by (rule dist3_unit)
    have s: "dist3 (k * (dx / r)) (k * (dy / r)) (k * (dz / r)) = \<bar>k\<bar>" if "0 < r"
      by (simp only: dist3_scale u[OF that] mult_1_right)
    have "if \<not> fixed m \<and> 0 < r \<and> r < R
          then masses (applyExplosion e c R F) ! i =
                 m\<lparr>force := \<lparr>vec_x = vec_x (force m) + k * (dx / r),
                                vec_y = vec_y (force m) + k * (dy / r),
                                vec_z = vec_z (force m) + k * (dz / r)\<rparr>\<rparr> \<and>
               dist3 (dx / r) (dy / r) (dz / r) = 1 \<and>
               dist3 (k * (dx / r)) (k * (dy / r)) (k * (dz / r)) = \<bar>k\<bar>
          else masses (applyExplosion e c R F) ! i = m"
    proof (cases "\<not> fixed m \<and> 0 < r \<and> r < R")
      case True
      then have "0 < r" by blast
      from yes[OF True] u[OF this] s[OF this] show ?thesis
        unfolding m' if_P[OF True] by blast
    next
      case False
      from no[OF False] show ?thesis
        unfolding m' if_not_P[OF False] .
    qed
    then show ?thesis
      unfolding Let_def m_def dx_def dy_def dz_def r_def k_def .
  qed
  have "applyExplosion e c R F = e\<lparr>masses := masses (applyExplosion e c R F)\<rparr>"
    by (simp add: applyExplosion_def)
  moreover have "length (masses (applyExplosion e c R F)) = length (masses e)"
    by simp
  ultimately show ?thesis
    using one by blast
qed

theorem applyExplosion_law_witness:
  "(1::nat) < length (masses scenarioEngine) \<and>
   masses (applyExplosion scenarioEngine blastCenter 6 2) ! 1 =
     (masses scenarioEngine ! 1)\<lparr>force := \<lparr>vec_x = 0, vec_y = - 10, vec_z = 0\<rparr>\<rparr> \<and>
   masses (applyExplosion scenarioEngine blastCenter 6 2) ! 0 = masses scenarioEngine ! 0 \<and>
   masses (applyExplosion scenarioEngine blastCenter 2 2) ! 1 = masses scenarioEngine ! 1"
proof -
  have a: "1 < length (masses scenarioEngine)" "0 < length (masses scenarioEngine)"
    by (simp_all add: scenarioEngine_eval)
  note t1 = applyExplosion_law[of scenarioEngine blastCenter 6 2, THEN conjunct2, THEN conjunct2,
      rule_format, OF a(1)]
  note t0 = applyExplosion_law[of scenarioEngine blastCenter 6 2, THEN conjunct2, THEN conjunct2,
      rule_format, OF a(2)]
  note t2 = applyExplosion_law[of scenarioEngine blastCenter 2 2, THEN conjunct2, THEN conjunct2,
      rule_format, OF a(1)]
  have b: "masses (applyExplosion scenarioEngine blastCenter 6 2) ! 1 =
     (masses scenarioEngine ! 1)\<lparr>force := \<lparr>vec_x = 0, vec_y = - 10, vec_z = 0\<rparr>\<rparr>"
    using t1 by (simp add: scenarioEngine_eval blastCenter_def Let_def)
  have c: "masses (applyExplosion scenarioEngine blastCenter 6 2) ! 0 = masses scenarioEngine ! 0"
    using t0 by (simp add: scenarioEngine_eval blastCenter_def Let_def)
  have d: "masses (applyExplosion scenarioEngine blastCenter 2 2) ! 1 = masses scenarioEngine ! 1"
    using t2 by (simp add: scenarioEngine_eval blastCenter_def Let_def)
  from a b c d show ?thesis by simp
qed

subsection \<open>Relaxation of the distance constraints\<close>

lemma neckEngine_eval:
  "masses neckEngine =
     [\<lparr>m_id = ''head_top'', position = \<lparr>vec_x = 0, vec_y = 20, vec_z = 0\<rparr>,
       originalPosition = \<lparr>vec_x = 0, vec_y = 20, vec_z = 0\<rparr>,
       velocity = \<lparr>vec_x = 0, vec_y = 0, vec_z = 0\<rparr>,
       force = \<lparr>vec_x = 0, vec_y = 0, vec_z = 0\<rparr>, mass = 10, fixed = True,
       m_group = ''head'', m_type = ''surface''\<rparr>,
      \<lparr>m_id = ''neck_top_center'', position = \<lparr>vec_x = 0, vec_y = 0, vec_z = 0\<rparr>,
       originalPosition = \<lparr>vec_x = 0, vec_y = 0, vec_z = 0\<rparr>,
       velocity = \<lparr>vec_x = 0, vec_y = 0, vec_z = 0\<rparr>,
       force = \<lparr>vec_x = 0, vec_y = 0, vec_z = 0\<rparr>, mass = 10, fixed = False,
       m_group = ''neck'', m_type = ''surface''\<rparr>]"
  "constraints neckEngine = [Distance 0 1 15 (9 / 10)]"
  by (simp_all add: neckEngine_def neckMesh_def parse_eval)

lemma dist3_zero [simp]: "dist3 0 0 0 = 0"
  by (simp add: dist3_def)

text \<open>
  Claim C6. The relaxation phase is three passes over the constraints, one after the
  other, and a pass applies the distance constraints in their order (a constraint of
  another type is skipped). For a distance constraint between the masses \<open>i\<close> and \<open>j\<close>
  with target \<open>t\<close> and stiffness \<open>k\<close>, at the current distance \<open>d\<close> of the two: when
  \<open>d = 0\<close> nothing changes; otherwise, with \<open>diff = (d - t) / d\<close>, the position of \<open>i\<close>
  moves by \<open>+0.5 * diff * k\<close> times the separation vector and the position of \<open>j\<close> by
  \<open>-0.5 * diff * k\<close> times it, unless that endpoint is fixed; no other mass and no
  other field changes, and when both endpoints are fixed nothing changes. Every
  enabled step with \<open>dt > 0\<close> runs this phase once, on the integrated masses and with
  the engine's constraints, between integration and the collision phase.
\<close>

theorem constraint_relaxation_law:
  "masses (applyConstraints e) =
     constraintPass (constraints e) (constraintPass (constraints e)
       (constraintPass (constraints e) (masses e))) \<and>
   applyConstraints e = e\<lparr>masses := masses (applyConstraints e)\<rparr> \<and>
   constraintPass cs ms = fold applyDistanceConstraint (filter is_Distance cs) ms \<and>
   (let dx = vec_x (position (ms ! j)) - vec_x (position (ms ! i));
        dy = vec_y (position (ms ! j)) - vec_y (position (ms ! i));
        dz = vec_z (position (ms ! j)) - vec_z (position (ms ! i));
        d = dist3 dx dy dz;
        diff = (d - t) / d;
        ms' = applyDistanceConstraint (Distance i j t k) ms
    in (d = 0 \<longrightarrow> ms' = ms) \<and>
       (d \<noteq> 0 \<and> i < length ms \<and> j < length ms \<longrightarrow>
          length ms' = length ms \<and>
          ms' ! i =
            (if fixed (ms ! i) then ms ! i
             else (ms ! i)\<lparr>position :=
                    \<lparr>vec_x = vec_x (position (ms ! i)) + 0.5 * diff * k * dx,
                     vec_y = vec_y (position (ms ! i)) + 0.5 * diff * k * dy,
                     vec_z = vec_z (position (ms ! i)) + 0.5 * diff * k * dz\<rparr>\<rparr>) \<and>
          ms' ! j =
            (if fixed (ms ! j) then ms ! j
             else (ms ! j)\<lparr>position :=
                    \<lparr>vec_x = vec_x (position (ms ! j)) - 0.5 * diff * k * dx,
                     vec_y = vec_y (position (ms ! j)) - 0.5 * diff * k * dy,
                     vec_z = vec_z (position (ms ! j)) - 0.5 * diff * k * dz\<rparr>\<rparr>) \<and>
          (\<forall>n < length ms. n \<noteq> i \<and> n \<noteq> j \<longrightarrow> ms' ! n = ms ! n) \<and>
          (fixed (ms ! i) \<and> fixed (ms ! j) \<longrightarrow> ms' = ms))) \<and>
   (enabled e \<and> 0 < dt \<longrightarrow>
      snd (update e (Some dt)) =
        clearForces (handleCollisions (applyConstraints (integrate (applyForces e) dt))) \<and>
      masses (applyConstraints (integrate (applyForces e) dt)) =
        constraintPass (constraints e) (constraintPass (constraints e)
          (constraintPass (constraints e) (masses (integrate (applyForces e) dt)))))"
proof -
  define dx where "dx = vec_x (position (ms ! j)) - vec_x (position (ms ! i))"
  define dy where "dy = vec_y (position (ms ! j)) - vec_y (position (ms ! i))"
  define dz where "dz = vec_z (position (ms ! j)) - vec_z (position (ms ! i))"
  define d where "d = dist3 dx dy dz"
  define diff where "diff = (d - t) / d"
  define ms' where "ms' = applyDistanceConstraint (Distance i j t k) ms"
  have z: "ms' = ms" if "d = 0"
    using that by (simp add: ms'_def applyDistanceConstraint_def Let_def d_def dx_def dy_def dz_def)
  have nz: "length ms' = length ms \<and>
          ms' ! i =
            (if fixed (ms ! i) then ms ! i
             else (ms ! i)\<lparr>position :=
                    \<lparr>vec_x = vec_x (position (ms ! i)) + 0.5 * diff * k * dx,
                     vec_y = vec_y (position (ms ! i)) + 0.5 * diff * k * dy,
                     vec_z = vec_z (position (ms ! i)) + 0.5 * diff * k * dz\<rparr>\<rparr>) \<and>
          ms' ! j =
            (if fixed (ms ! j) then ms ! j
             else (ms ! j)\<lparr>position :=
                    \<lparr>vec_x = vec_x (position (ms ! j)) - 0.5 * diff * k * dx,
                     vec_y = vec_y (position (ms ! j)) - 0.5 * diff * k * dy,
                     vec_z = vec_z (position (ms ! j)) - 0.5 * diff * k * dz\<rparr>\<rparr>) \<and>
          (\<forall>n < length ms. n \<noteq> i \<and> n \<noteq> j \<longrightarrow> ms' ! n = ms ! n) \<and>
          (fixed (ms ! i) \<and> fixed (ms ! j) \<longrightarrow> ms' = ms)"
    if "d \<noteq> 0 \<and> i < length ms \<and> j < length ms"
  proof -
    from that have ne: "i \<noteq> j"
      by (auto simp: d_def dx_def dy_def dz_def)
    from that ne show ?thesis
      by (simp add: ms'_def applyDistanceConstraint_def Let_def d_def[symmetric] dx_def[symmetric]
          dy_def[symmetric] dz_def[symmetric] diff_def[symmetric])
  qed
  have "(d = 0 \<longrightarrow> ms' = ms) \<and>
        (d \<noteq> 0 \<and> i < length ms \<and> j < length ms \<longrightarrow>
          length ms' = length ms \<and>
          ms' ! i =
            (if fixed (ms ! i) then ms ! i
             else (ms ! i)\<lparr>position :=
                    \<lparr>vec_x = vec_x (position (ms ! i)) + 0.5 * diff * k * dx,
                     vec_y = vec_y (position (ms ! i)) + 0.5 * diff * k * dy,
                     vec_z = vec_z (position (ms ! i)) + 0.5 * diff * k * dz\<rparr>\<rparr>) \<and>
          ms' ! j =
            (if fixed (ms ! j) then ms ! j
             else (ms ! j)\<lparr>position :=
                    \<lparr>vec_x = vec_x (position (ms ! j)) - 0.5 * diff * k * dx,
                     vec_y = vec_y (position (ms ! j)) - 0.5 * diff * k * dy,
                     vec_z = vec_z (position (ms ! j)) - 0.5 * diff * k * dz\<rparr>\<rparr>) \<and>
          (\<forall>n < length ms. n \<noteq> i \<and> n \<noteq> j \<longrightarrow> ms' ! n = ms ! n) \<and>
          (fixed (ms ! i) \<and> fixed (ms ! j) \<longrightarrow> ms' = ms))"
    using z nz by blast
  then have law: "(let dx = vec_x (position (ms ! j)) - vec_x (position (ms ! i));
        dy = vec_y (position (ms ! j)) - vec_y (position (ms ! i));
        dz = vec_z (position (ms ! j)) - vec_z (position (ms ! i));
        d = dist3 dx dy dz;
        diff = (d - t) / d;
        ms' = applyDistanceConstraint (Distance i j t k) ms
    in (d = 0 \<longrightarrow> ms' = ms) \<and>
       (d \<noteq> 0 \<and> i < length ms \<and> j < length ms \<longrightarrow>
          length ms' = length ms \<and>
          ms' ! i =
            (if fixed (ms ! i) then ms ! i
             else (ms ! i)\<lparr>position :=
                    \<lparr>vec_x = vec_x (position (ms ! i)) + 0.5 * diff * k * dx,
                     vec_y = vec_y (position (ms ! i)) + 0.5 * diff * k * dy,
                     vec_z = vec_z (position (ms ! i)) + 0.5 * diff * k * dz\<rparr>\<rparr>) \<and>
          ms' ! j =
            (if fixed (ms ! j) then ms ! j
             else (ms ! j)\<lparr>position :=
                    \<lparr>vec_x = vec_x (position (ms ! j)) - 0.5 * diff * k * dx,
                     vec_y = vec_y (position (ms ! j)) - 0.5 * diff * k * dy,
                     vec_z = vec_z (position (ms ! j)) - 0.5 * diff * k * dz\<rparr>\<rparr>) \<and>
          (\<forall>n < length ms. n \<noteq> i \<and> n \<noteq> j \<longrightarrow> ms' ! n = ms ! n) \<and>
          (fixed (ms ! i) \<and> fixed (ms ! j) \<longrightarrow> ms' = ms)))"
    unfolding Let_def ms'_def diff_def d_def dx_def dy_def dz_def .
  have loop: "constraintLoop n cs' ms' = (constraintPass cs' ^^ (3 - n)) ms'" for n cs' ms'
  proof (induction n cs' ms' rule: constraintLoop.induct)
    case (1 n cs' ms')
    show ?case
    proof (cases "n < 3")
      case True
      then have "3 - n = Suc (3 - (n + 1))" by simp
      with 1 True show ?thesis
        by (subst constraintLoop.simps) (simp add: funpow_swap1)
    next
      case False
      then show ?thesis
        by (subst constraintLoop.simps) simp
    qed
  qed
  have loop0: "constraintLoop 0 cs' ms' =
      constraintPass cs' (constraintPass cs' (constraintPass cs' ms'))" for cs' ms'
    by (simp add: loop numeral_3_eq_3)
  have three: "masses (applyConstraints e) =
     constraintPass (constraints e) (constraintPass (constraints e)
       (constraintPass (constraints e) (masses e)))"
    by (simp add: applyConstraints_def loop0)
  have frame: "applyConstraints e = e\<lparr>masses := masses (applyConstraints e)\<rparr>"
    by (simp add: applyConstraints_def)
  have step: "snd (update e (Some dt)) =
        clearForces (handleCollisions (applyConstraints (integrate (applyForces e) dt))) \<and>
      masses (applyConstraints (integrate (applyForces e) dt)) =
        constraintPass (constraints e) (constraintPass (constraints e)
          (constraintPass (constraints e) (masses (integrate (applyForces e) dt))))"
    if "enabled e \<and> 0 < dt"
    using that
    by (simp add: update_def Let_def applyConstraints_def loop0 integrate_def
        applyForces_def)
  have cpf: "constraintPass cs' ms' = fold applyDistanceConstraint (filter is_Distance cs') ms'"
    for cs' ms'
    unfolding constraintPass_def
  proof (induction cs' arbitrary: ms')
    case Nil
    show ?case by simp
  next
    case (Cons c cs')
    then show ?case by (cases c) simp_all
  qed
  from three frame cpf[of cs ms] law step show ?thesis
    by blast
qed

theorem constraint_relaxation_law_witness:
  "constraints neckEngine = [Distance 0 1 15 (9 / 10)] \<and>
   length (masses neckEngine) = 2 \<and>
   fixed (masses neckEngine ! 0) \<and>
   applyDistanceConstraint (Distance 0 1 15 (9 / 10)) (masses neckEngine) ! 0 = masses neckEngine ! 0 \<and>
   applyDistanceConstraint (Distance 0 1 15 (9 / 10)) (masses neckEngine) ! 1 =
     (masses neckEngine ! 1)\<lparr>position := \<lparr>vec_x = 0, vec_y = 9 / 4, vec_z = 0\<rparr>\<rparr> \<and>
   position (masses (applyConstraints neckEngine) ! 1) =
     \<lparr>vec_x = 0, vec_y = 6669 / 1600, vec_z = 0\<rparr> \<and>
   enabled (enable neckEngine) \<and> (0::real) < 1 \<and>
   snd (update (enable neckEngine) (Some 1)) =
     clearForces (handleCollisions (applyConstraints
       (integrate (applyForces (enable neckEngine)) 1))) \<and>
   masses (applyConstraints (integrate (applyForces (enable neckEngine)) 1)) =
     constraintPass [Distance 0 1 15 (9 / 10)] (constraintPass [Distance 0 1 15 (9 / 10)]
       (constraintPass [Distance 0 1 15 (9 / 10)]
         (masses (integrate (applyForces (enable neckEngine)) 1))))"
proof -
  note t = constraint_relaxation_law[where e = neckEngine and cs = "constraints neckEngine"
      and ms = "masses neckEngine" and i = 0 and j = 1 and t = 15 and k = "9 / 10"]
  have a: "constraints neckEngine = [Distance 0 1 15 (9 / 10)]" "length (masses neckEngine) = 2"
    "fixed (masses neckEngine ! 0)"
    by (simp_all add: neckEngine_eval)
  have d: "dist3 (vec_x (position (masses neckEngine ! 1)) - vec_x (position (masses neckEngine ! 0)))
      (vec_y (position (masses neckEngine ! 1)) - vec_y (position (masses neckEngine ! 0)))
      (vec_z (position (masses neckEngine ! 1)) - vec_z (position (masses neckEngine ! 0))) = 20"
    by (simp add: neckEngine_eval)
  from t have b: "applyDistanceConstraint (Distance 0 1 15 (9 / 10)) (masses neckEngine) ! 0 =
      masses neckEngine ! 0 \<and>
    applyDistanceConstraint (Distance 0 1 15 (9 / 10)) (masses neckEngine) ! 1 =
     (masses neckEngine ! 1)\<lparr>position := \<lparr>vec_x = 0, vec_y = 9 / 4, vec_z = 0\<rparr>\<rparr>"
    unfolding Let_def d by (simp add: neckEngine_eval)
  from t have "masses (applyConstraints neckEngine) =
     constraintPass (constraints neckEngine) (constraintPass (constraints neckEngine)
       (constraintPass (constraints neckEngine) (masses neckEngine)))"
    by blast
  then have c: "position (masses (applyConstraints neckEngine) ! 1) =
     \<lparr>vec_x = 0, vec_y = 6669 / 1600, vec_z = 0\<rparr>"
    by (simp add: neckEngine_eval constraintPass_def applyDistanceConstraint_def Let_def)
  have en: "enabled (enable neckEngine) \<and> (0::real) < 1"
    "constraints (enable neckEngine) = [Distance 0 1 15 (9 / 10)]"
    by (simp_all add: enable_def neckEngine_eval)
  from constraint_relaxation_law[where e = "enable neckEngine" and dt = 1] en(1)
  have s: "snd (update (enable neckEngine) (Some 1)) =
     clearForces (handleCollisions (applyConstraints
       (integrate (applyForces (enable neckEngine)) 1))) \<and>
   masses (applyConstraints (integrate (applyForces (enable neckEngine)) 1)) =
     constraintPass [Distance 0 1 15 (9 / 10)] (constraintPass [Distance 0 1 15 (9 / 10)]
       (constraintPass [Distance 0 1 15 (9 / 10)]
         (masses (integrate (applyForces (enable neckEngine)) 1))))"
    unfolding en(2) by blast
  from a b c en(1) s show ?thesis by simp
qed

subsection \<open>Collision constraints in the constraint array\<close>

lemma is_Distance_mkJointConstraint: "list_all is_Distance (List.map_filter (mkJointConstraint ms) tbl)"
  by (induction tbl)
    (auto simp: List.map_filter_def mkJointConstraint_def split: option.splits)

lemma length_filter_indices:
  "length (filter (\<lambda>i. P (xs ! i)) [0 ..< length xs]) = length (filter P xs)"
proof -
  have "filter P xs = filter P (map ((!) xs) [0 ..< length xs])"
    by (simp only: map_nth)
  also have "\<dots> = map ((!) xs) (filter (P \<circ> (!) xs) [0 ..< length xs])"
    by (rule filter_map)
  finally have "length (filter P xs) = length (filter (P \<circ> (!) xs) [0 ..< length xs])"
    by simp
  then show ?thesis
    by (simp add: o_def)
qed

lemma list_all_Collision: "list_all is_Distance (map (\<lambda>i. Collision i g r) js) \<longleftrightarrow> js = []"
  by (cases js) simp_all

lemma constraints_parsePhysicsData:
  "constraints (parsePhysicsData e md) =
     (if jointConstraints md
      then List.map_filter (mkJointConstraint (masses (parsePhysicsData e md))) jointConstraintTable
      else []) @
     map (\<lambda>i. Collision i (- 50) 0.7)
       (filter (\<lambda>i. \<not> fixed (masses (parsePhysicsData e md) ! i) \<and>
                    vec_y (position (masses (parsePhysicsData e md) ! i)) < - 50)
          [0 ..< length (masses (parsePhysicsData e md))])"
  by (simp add: parsePhysicsData_def Let_def addCollisionConstraints_def addJointConstraints_def)

text \<open>
  Claim C4, as amended. Construction stores, after the distance constraints of the
  table (when \<open>jointConstraints\<close> is set), one collision constraint with ground level
  \<open>-50\<close> and restitution \<open>0.7\<close> for every mass that is not fixed and starts below
  \<open>y = -50\<close>. So the array holds distance constraints only exactly when no such mass
  exists, and \<open>constraintCount\<close> is the number of distance constraints plus the number
  of such masses. A step never reads the stored collision constraints: an engine
  without them steps in the same way. Ground collision is resolved by the collision
  phase that every enabled step with \<open>dt > 0\<close> runs: it does not depend on the
  constraint array, and it clamps every mass that is not fixed and lies below the
  constant \<open>-50\<close> to \<open>y = -50\<close>, with \<open>velocity.y\<close> times \<open>-0.7\<close> and \<open>velocity.x\<close>,
  \<open>velocity.z\<close> times \<open>0.9\<close>, leaving every other mass as it is.
\<close>

theorem collision_constraints_stored_unused:
  "constraints (parsePhysicsData e md) =
     (if jointConstraints md
      then List.map_filter (mkJointConstraint (masses (parsePhysicsData e md))) jointConstraintTable
      else []) @
     map (\<lambda>i. Collision i (- 50) 0.7)
       (filter (\<lambda>i. \<not> fixed (masses (parsePhysicsData e md) ! i) \<and>
                    vec_y (position (masses (parsePhysicsData e md) ! i)) < - 50)
          [0 ..< length (masses (parsePhysicsData e md))]) \<and>
   (list_all is_Distance (constraints (parsePhysicsData e md)) \<longleftrightarrow>
      (\<forall>m \<in> set (masses (parsePhysicsData e md)). fixed m \<or> - 50 \<le> vec_y (position m))) \<and>
   constraintCount (getPhysicsData (parsePhysicsData e md)) =
     length (filter is_Distance (constraints (parsePhysicsData e md))) +
     length (filter (\<lambda>m. \<not> fixed m \<and> vec_y (position m) < - 50) (masses (parsePhysicsData e md))) \<and>
   update (e'\<lparr>constraints := filter is_Distance (constraints e')\<rparr>) dt =
     (fst (update e' dt), (snd (update e' dt))\<lparr>constraints := filter is_Distance (constraints e')\<rparr>) \<and>
   (enabled e' \<and> 0 < d \<longrightarrow>
      snd (update e' (Some d)) =
        clearForces (handleCollisions (applyConstraints (integrate (applyForces e') d)))) \<and>
   handleCollisions (e'\<lparr>constraints := cs\<rparr>) = (handleCollisions e')\<lparr>constraints := cs\<rparr> \<and>
   length (masses (handleCollisions e')) = length (masses e') \<and>
   (\<forall>i < length (masses e').
      masses (handleCollisions e') ! i =
        (let m = masses e' ! i in
         if \<not> fixed m \<and> vec_y (position m) < - 50
         then m\<lparr>position := \<lparr>vec_x = vec_x (position m), vec_y = - 50, vec_z = vec_z (position m)\<rparr>,
                velocity := \<lparr>vec_x = 0.9 * vec_x (velocity m),
                             vec_y = - 0.7 * vec_y (velocity m),
                             vec_z = 0.9 * vec_z (velocity m)\<rparr>\<rparr>
         else m))"
proof -
  let ?p = "parsePhysicsData e md"
  let ?J = "if jointConstraints md
      then List.map_filter (mkJointConstraint (masses ?p)) jointConstraintTable else []"
  let ?I = "filter (\<lambda>i. \<not> fixed (masses ?p ! i) \<and> vec_y (position (masses ?p ! i)) < - 50)
          [0 ..< length (masses ?p)]"
  have c: "constraints ?p = ?J @ map (\<lambda>i. Collision i (- 50) 0.7) ?I"
    by (simp add: parsePhysicsData_def Let_def addCollisionConstraints_def addJointConstraints_def)
  have J: "list_all is_Distance ?J"
    by (simp add: is_Distance_mkJointConstraint)
  then have fJ: "filter is_Distance ?J = ?J"
    by (simp add: list_all_iff)
  have fC: "filter is_Distance (map (\<lambda>i. Collision i (- 50) 0.7) ?I) = []"
    by (simp add: filter_empty_conv)
  have lenI: "length ?I =
      length (filter (\<lambda>m. \<not> fixed m \<and> vec_y (position m) < - 50) (masses ?p))"
    by (rule length_filter_indices[where P = "\<lambda>m. \<not> fixed m \<and> vec_y (position m) < - 50"])
  have "list_all is_Distance (constraints ?p) \<longleftrightarrow> ?I = []"
    unfolding c list_all_append list_all_Collision using J by blast
  also have "\<dots> \<longleftrightarrow> filter (\<lambda>m. \<not> fixed m \<and> vec_y (position m) < - 50) (masses ?p) = []"
    unfolding length_0_conv[symmetric] lenI ..
  also have "\<dots> \<longleftrightarrow> (\<forall>m \<in> set (masses ?p). fixed m \<or> - 50 \<le> vec_y (position m))"
    by (auto simp: filter_empty_conv not_less)
  finally have only: "list_all is_Distance (constraints ?p) \<longleftrightarrow>
      (\<forall>m \<in> set (masses ?p). fixed m \<or> - 50 \<le> vec_y (position m))" .
  have "length (constraints ?p) = length ?J + length ?I"
    unfolding c by simp
  moreover have "filter is_Distance (constraints ?p) = ?J"
    unfolding c filter_append fJ fC by simp
  ultimately have count: "constraintCount (getPhysicsData ?p) =
     length (filter is_Distance (constraints ?p)) +
     length (filter (\<lambda>m. \<not> fixed m \<and> vec_y (position m) < - 50) (masses ?p))"
    using lenI by (simp add: getPhysicsData_def)
  have link: "snd (update e' (Some d)) =
        clearForces (handleCollisions (applyConstraints (integrate (applyForces e') d)))"
    if "enabled e' \<and> 0 < d"
    using that by (simp add: update_def Let_def)
  have proc: "handleCollisions (e'\<lparr>constraints := cs\<rparr>) = (handleCollisions e')\<lparr>constraints := cs\<rparr>"
    "length (masses (handleCollisions e')) = length (masses e')"
    by (simp_all add: handleCollisions_def)
  have clamp: "\<forall>i < length (masses e').
      masses (handleCollisions e') ! i =
        (let m = masses e' ! i in
         if \<not> fixed m \<and> vec_y (position m) < - 50
         then m\<lparr>position := \<lparr>vec_x = vec_x (position m), vec_y = - 50, vec_z = vec_z (position m)\<rparr>,
                velocity := \<lparr>vec_x = 0.9 * vec_x (velocity m),
                             vec_y = - 0.7 * vec_y (velocity m),
                             vec_z = 0.9 * vec_z (velocity m)\<rparr>\<rparr>
         else m)"
    by (simp add: handleCollisions_def collideMass_def Let_def)
  have cpf: "constraintPass cs' ms' = fold applyDistanceConstraint (filter is_Distance cs') ms'"
    for cs' ms'
    unfolding constraintPass_def
  proof (induction cs' arbitrary: ms')
    case Nil
    show ?case by simp
  next
    case (Cons c cs')
    then show ?case by (cases c) simp_all
  qed
  have cpo: "constraintPass (filter is_Distance cs') ms' = constraintPass cs' ms'" for cs' ms'
    by (simp add: cpf)
  have unused: "update (e'\<lparr>constraints := filter is_Distance (constraints e')\<rparr>) dt =
     (fst (update e' dt), (snd (update e' dt))\<lparr>constraints := filter is_Distance (constraints e')\<rparr>)"
    by (cases dt)
      (simp_all add: update_def Let_def applyForces_def integrate_def applyConstraints_def
        handleCollisions_def clearForces_def getMassPositions_def constraintLoop_three cpo)
  from c only count unused link proc clamp show ?thesis
    by blast
qed

text \<open>
  Claim C4 as stated fails on a topology with one surface point at \<open>y = -60\<close>: the
  constraint array of the constructed engine holds one constraint, of type collision,
  no distance constraint, and \<open>constraintCount\<close> is \<open>1\<close>.
\<close>

theorem collision_constraint_stored_counterexample:
  "constraints (parsePhysicsData constructor sunkMesh) = [Collision 0 (- 50) (7 / 10)] \<and>
   \<not> list_all is_Distance (constraints (parsePhysicsData constructor sunkMesh)) \<and>
   filter is_Distance (constraints (parsePhysicsData constructor sunkMesh)) = [] \<and>
   constraintCount (getPhysicsData (parsePhysicsData constructor sunkMesh)) = 1"
  using sunkEngine_eval by (simp add: sunkEngine_def getPhysicsData_def)

theorem collision_constraints_stored_unused_witness:
  "list_all is_Distance (constraints neckEngine) \<and>
   constraints neckEngine = [Distance 0 1 15 (9 / 10)] \<and>
   constraintCount (getPhysicsData neckEngine) = 1 \<and>
   constraints (enable sunkEngine) = [Collision 0 (- 50) (7 / 10)] \<and>
   update ((enable sunkEngine)\<lparr>constraints := []\<rparr>) (Some 1) =
     (fst (update (enable sunkEngine) (Some 1)),
      (snd (update (enable sunkEngine) (Some 1)))\<lparr>constraints := []\<rparr>) \<and>
   enabled (enable sunkEngine) \<and> (0::real) < 1 \<and>
   snd (update (enable sunkEngine) (Some 1)) =
     clearForces (handleCollisions (applyConstraints
       (integrate (applyForces (enable sunkEngine)) 1))) \<and>
   (0::nat) < length (masses (applyImpulse sunkEngine ''foot'' \<lparr>vec_x = 10, vec_y = - 20, vec_z = 30\<rparr>)) \<and>
   position (masses (handleCollisions
       (applyImpulse sunkEngine ''foot'' \<lparr>vec_x = 10, vec_y = - 20, vec_z = 30\<rparr>)) ! 0) =
     \<lparr>vec_x = 3, vec_y = - 50, vec_z = 4\<rparr> \<and>
   velocity (masses (handleCollisions
       (applyImpulse sunkEngine ''foot'' \<lparr>vec_x = 10, vec_y = - 20, vec_z = 30\<rparr>)) ! 0) =
     \<lparr>vec_x = 9 / 10, vec_y = 14 / 10, vec_z = 27 / 10\<rparr>"
proof -
  note t = collision_constraints_stored_unused[where e = constructor and md = neckMesh
      and e' = "enable sunkEngine" and dt = "Some 1" and d = 1, folded neckEngine_def]
  have b: "\<forall>m \<in> set (masses neckEngine). fixed m \<or> - 50 \<le> vec_y (position m)"
    by (simp add: neckEngine_eval)
  from t b have a: "list_all is_Distance (constraints neckEngine)"
    by blast
  have n: "filter (\<lambda>m. \<not> fixed m \<and> vec_y (position m) < - 50) (masses neckEngine) = []"
    "filter is_Distance (constraints neckEngine) = [Distance 0 1 15 (9 / 10)]"
    by (simp_all add: neckEngine_eval)
  from t have "constraintCount (getPhysicsData neckEngine) =
     length (filter is_Distance (constraints neckEngine)) +
     length (filter (\<lambda>m. \<not> fixed m \<and> vec_y (position m) < - 50) (masses neckEngine))"
    by blast
  then have c: "constraintCount (getPhysicsData neckEngine) = 1"
    unfolding n by simp
  have s: "constraints (enable sunkEngine) = [Collision 0 (- 50) (7 / 10)]"
    "filter is_Distance (constraints (enable sunkEngine)) = []"
    by (simp_all add: enable_def sunkEngine_eval)
  from t have u: "update ((enable sunkEngine)\<lparr>constraints := []\<rparr>) (Some 1) =
     (fst (update (enable sunkEngine) (Some 1)),
      (snd (update (enable sunkEngine) (Some 1)))\<lparr>constraints := []\<rparr>)"
    unfolding s by simp
  have en: "enabled (enable sunkEngine) \<and> (0::real) < 1"
    by (simp add: enable_def)
  with t have l: "snd (update (enable sunkEngine) (Some 1)) =
     clearForces (handleCollisions (applyConstraints
       (integrate (applyForces (enable sunkEngine)) 1)))"
    by blast
  let ?k = "applyImpulse sunkEngine ''foot'' \<lparr>vec_x = 10, vec_y = - 20, vec_z = 30\<rparr>"
  have k: "masses ?k =
     [\<lparr>m_id = ''foot'', position = \<lparr>vec_x = 3, vec_y = - 60, vec_z = 4\<rparr>,
       originalPosition = \<lparr>vec_x = 3, vec_y = - 60, vec_z = 4\<rparr>,
       velocity = \<lparr>vec_x = 1, vec_y = - 2, vec_z = 3\<rparr>,
       force = \<lparr>vec_x = 0, vec_y = 0, vec_z = 0\<rparr>, mass = 10, fixed = False,
       m_group = ''leg'', m_type = ''surface''\<rparr>]"
    by (simp add: sunkEngine_eval applyImpulse_def)
  then have k0: "0 < length (masses ?k)"
    by simp
  from collision_constraints_stored_unused[where e' = ?k] k0
  have "masses (handleCollisions ?k) ! 0 =
        (let m = masses ?k ! 0 in
         if \<not> fixed m \<and> vec_y (position m) < - 50
         then m\<lparr>position := \<lparr>vec_x = vec_x (position m), vec_y = - 50, vec_z = vec_z (position m)\<rparr>,
                velocity := \<lparr>vec_x = 0.9 * vec_x (velocity m),
                             vec_y = - 0.7 * vec_y (velocity m),
                             vec_z = 0.9 * vec_z (velocity m)\<rparr>\<rparr>
         else m)"
    by blast
  then have h: "position (masses (handleCollisions ?k) ! 0) = \<lparr>vec_x = 3, vec_y = - 50, vec_z = 4\<rparr>"
    "velocity (masses (handleCollisions ?k) ! 0) = \<lparr>vec_x = 9 / 10, vec_y = 14 / 10, vec_z = 27 / 10\<rparr>"
    unfolding k by simp_all
  from a c s(1) u en l k0 h show ?thesis
    by (simp add: neckEngine_eval)
qed

subsection \<open>Integration and free fall\<close>

lemma fallEngine_eval:
  "fallEngine =
     \<lparr>gravity = 1, damping = 1, stiffness = 3 / 20, enabled = True,
      timeStep = 1 / 60, springs = [],
      masses =
        [\<lparr>m_id = ''P'', position = \<lparr>vec_x = 0, vec_y = 0, vec_z = 0\<rparr>,
          originalPosition = \<lparr>vec_x = 0, vec_y = 0, vec_z = 0\<rparr>,
          velocity = \<lparr>vec_x = 0, vec_y = 0, vec_z = 0\<rparr>,
          force = \<lparr>vec_x = 0, vec_y = 0, vec_z = 0\<rparr>, mass = 10, fixed = False,
          m_group = ''torso'', m_type = ''surface''\<rparr>],
      constraints = [],
      originalPositions = [''P'' \<mapsto> \<lparr>vec_x = 0, vec_y = 0, vec_z = 0\<rparr>]\<rparr>"
  by (simp add: fallEngine_def fallMesh_def enable_def setDamping_def setGravity_def parse_eval)

lemmas step_eval = update_def applyForces_def applyGravity_def applySpringForce_def integrate_def
  integrateMass_def applyConstraints_def constraintLoop_three constraintPass_def
  handleCollisions_def collideMass_def clearForces_def Let_def

text \<open>
  Claim C1 as stated fails at the ground. A single free mass at rest at \<open>y = 0\<close>, with
  gravity \<open>1\<close> and damping \<open>1\<close>, stepped once with \<open>dt = 8\<close>: integration gives the
  velocity \<open>-8\<close> and \<open>y = -64\<close>, which is below \<open>-50\<close>, so the collision phase of the
  same step puts the mass at \<open>y = -50\<close> with velocity \<open>+5.6\<close>. Neither equation of the
  free-fall law holds for this step.
\<close>

theorem free_fall_counterexample:
  "length (masses fallEngine) = 1 \<and> \<not> fixed (hd (masses fallEngine)) \<and>
   springs fallEngine = [] \<and> constraints fallEngine = [] \<and> enabled fallEngine \<and>
   gravity fallEngine = 1 \<and> damping fallEngine = 1 \<and>
   vec_y (velocity (hd (masses fallEngine))) = 0 \<and>
   vec_y (position (hd (masses fallEngine))) = 0 \<and>
   vec_y (velocity (hd (masses (snd (update fallEngine (Some 8)))))) = 28 / 5 \<and>
   vec_y (position (hd (masses (snd (update fallEngine (Some 8)))))) = - 50 \<and>
   - vec_y (velocity (hd (masses (snd (update fallEngine (Some 8)))))) \<noteq>
     damping fallEngine * (- vec_y (velocity (hd (masses fallEngine))) + gravity fallEngine * 8) \<and>
   vec_y (position (hd (masses (snd (update fallEngine (Some 8)))))) \<noteq>
     vec_y (position (hd (masses fallEngine))) +
     vec_y (velocity (hd (masses (snd (update fallEngine (Some 8)))))) * 8"
  by (simp add: fallEngine_eval step_eval)

lemma constraintPass_single:
  "list_all (\<lambda>c. case c of Distance i j d k \<Rightarrow> i < 1 \<and> j < 1 | Collision i g r \<Rightarrow> i < 1) cs \<Longrightarrow>
     constraintPass cs [m] = [m]"
  unfolding constraintPass_def
proof (induction cs)
  case Nil
  show ?case by simp
next
  case (Cons c cs)
  then show ?case
    by (cases c) (simp_all add: applyDistanceConstraint_def Let_def)
qed

lemma frame_update [simp]:
  "springs (snd (update e dt)) = springs e"
  "constraints (snd (update e dt)) = constraints e"
  "gravity (snd (update e dt)) = gravity e"
  "damping (snd (update e dt)) = damping e"
  "enabled (snd (update e dt)) = enabled e"
  by (simp_all add: update_def Let_def applyForces_def integrate_def applyConstraints_def
      handleCollisions_def clearForces_def)

lemma wf_engine_update: "wf_engine (snd (update e dt)) = wf_engine e"
  by (simp add: wf_engine_def cong: constraint.case_cong)

lemma wf_engine_parsePhysicsData: "wf_engine (parsePhysicsData e md)"
proof -
  let ?ms = "map mkMass (vertices md)"
  have s: "list_all (\<lambda>s. s_mass1 s < length ?ms \<and> s_mass2 s < length ?ms)
      (List.map_filter (mkSpring ?ms t k) es)" for t k es
    by (induction es)
      (auto simp: List.map_filter_def mkSpring_def Let_def dest!: findMass_Some split: option.splits)
  have j: "list_all (\<lambda>c. case c of Distance i j d k \<Rightarrow> i < length ?ms \<and> j < length ?ms
              | Collision i g r \<Rightarrow> i < length ?ms)
      (List.map_filter (mkJointConstraint ?ms) tbl)" for tbl
    by (induction tbl)
      (auto simp: List.map_filter_def mkJointConstraint_def dest!: findMass_Some split: option.splits)
  have c: "list_all (\<lambda>c. case c of Distance i j d k \<Rightarrow> i < length ?ms \<and> j < length ?ms
              | Collision i g r \<Rightarrow> i < length ?ms)
      (map (\<lambda>i. Collision i g r) (filter P [0 ..< length ?ms]))" for g r P
    by (simp add: list_all_iff)
  show ?thesis
    unfolding wf_engine_def constraints_parsePhysicsData springs_parsePhysicsData
      masses_parsePhysicsData list_all_append
    using s j c by (simp del: length_map)
qed

lemma wf_engine_exec: "wf_engine (exec e a) = wf_engine e"
proof (cases "\<exists>k. a = SetStiffness k")
  case True
  then show ?thesis
    by (auto simp: wf_engine_def setStiffness_def Let_def list_all_iff cong: constraint.case_cong)
next
  case False
  then have "springs (exec e a) = springs e \<and> constraints (exec e a) = constraints e"
    by (cases a)
      (simp_all add: applyForce_def applyImpulse_def applyWind_def applyExplosion_def toggleFixed_def
        getMassById_def reset_def enable_def disable_def setGravity_def
        setDamping_def Let_def split: option.splits)
  then show ?thesis
    by (simp add: wf_engine_def cong: constraint.case_cong)
qed

lemma wf_engine_run: "wf_engine (run e as) = wf_engine e"
  by (induction as arbitrary: e) (simp_all add: wf_engine_exec)

text \<open>
  Claim C1, as amended. The integration phase of a step updates every mass that is
  not fixed and whose mass is not zero by \<open>velocity += (force / mass) * dt\<close>, then
  \<open>velocity *= damping\<close> on the three axes, then \<open>position += velocity * dt\<close>, and leaves
  a fixed mass as it is; an enabled step with \<open>dt > 0\<close> runs it between the force phase
  and the constraint, collision and clearing phases. For an engine whose only mass is
  free, of nonzero mass, with an empty force accumulator and no spring, a step that
  does not take the mass below \<open>y = -50\<close> satisfies \<open>v' = d * (v + g * dt)\<close> for the speed
  \<open>v = -velocity.y\<close> along \<open>-y\<close> and \<open>y' = y + velocity.y' * dt\<close>; a step whose
  integration takes the mass below \<open>y = -50\<close> ends with the ground clamp instead:
  \<open>y' = -50\<close>, \<open>velocity.y'\<close> is \<open>-0.7\<close> times the integrated \<open>d * (velocity.y - g * dt)\<close>,
  and \<open>velocity.x\<close>, \<open>velocity.z\<close> are \<open>0.9\<close> times their integrated values. In both
  cases the engine after the step is again such an engine with the same gravity and
  damping, so every step of the fall is one of the two.
\<close>

theorem integration_law_and_free_fall:
  "(\<forall>i < length (masses e).
      (fixed (masses e ! i) \<longrightarrow> masses (integrate e dt) ! i = masses e ! i) \<and>
      (\<not> fixed (masses e ! i) \<and> mass (masses e ! i) \<noteq> 0 \<longrightarrow>
         masses (integrate e dt) ! i =
           (let m = masses e ! i;
                v = \<lparr>vec_x = (vec_x (velocity m) + vec_x (force m) / mass m * dt) * damping e,
                     vec_y = (vec_y (velocity m) + vec_y (force m) / mass m * dt) * damping e,
                     vec_z = (vec_z (velocity m) + vec_z (force m) / mass m * dt) * damping e\<rparr>
            in m\<lparr>velocity := v,
                 position := \<lparr>vec_x = vec_x (position m) + vec_x v * dt,
                              vec_y = vec_y (position m) + vec_y v * dt,
                              vec_z = vec_z (position m) + vec_z v * dt\<rparr>\<rparr>))) \<and>
   (enabled e \<and> 0 < dt \<longrightarrow>
      snd (update e (Some dt)) =
        clearForces (handleCollisions (applyConstraints (integrate (applyForces e) dt)))) \<and>
   (freeFalling e m \<and> 0 < dt \<and>
    - 50 \<le> vec_y (position m) + damping e * (vec_y (velocity m) - gravity e * dt) * dt \<longrightarrow>
      (let e' = snd (update e (Some dt)); m' = hd (masses e')
       in freeFalling e' m' \<and> gravity e' = gravity e \<and> damping e' = damping e \<and>
          - vec_y (velocity m') = damping e * (- vec_y (velocity m) + gravity e * dt) \<and>
          vec_y (position m') = vec_y (position m) + vec_y (velocity m') * dt)) \<and>
   (freeFalling e m \<and> 0 < dt \<and>
    vec_y (position m) + damping e * (vec_y (velocity m) - gravity e * dt) * dt < - 50 \<longrightarrow>
      (let e' = snd (update e (Some dt)); m' = hd (masses e')
       in freeFalling e' m' \<and> gravity e' = gravity e \<and> damping e' = damping e \<and>
          vec_y (position m') = - 50 \<and>
          vec_y (velocity m') = - 0.7 * (damping e * (vec_y (velocity m) - gravity e * dt)) \<and>
          vec_x (velocity m') = 0.9 * (damping e * vec_x (velocity m)) \<and>
          vec_z (velocity m') = 0.9 * (damping e * vec_z (velocity m)) \<and>
          vec_x (position m') = vec_x (position m) + damping e * vec_x (velocity m) * dt \<and>
          vec_z (position m') = vec_z (position m) + damping e * vec_z (velocity m) * dt))"
proof -
  have A: "\<forall>i < length (masses e).
      (fixed (masses e ! i) \<longrightarrow> masses (integrate e dt) ! i = masses e ! i) \<and>
      (\<not> fixed (masses e ! i) \<and> mass (masses e ! i) \<noteq> 0 \<longrightarrow>
         masses (integrate e dt) ! i =
           (let m = masses e ! i;
                v = \<lparr>vec_x = (vec_x (velocity m) + vec_x (force m) / mass m * dt) * damping e,
                     vec_y = (vec_y (velocity m) + vec_y (force m) / mass m * dt) * damping e,
                     vec_z = (vec_z (velocity m) + vec_z (force m) / mass m * dt) * damping e\<rparr>
            in m\<lparr>velocity := v,
                 position := \<lparr>vec_x = vec_x (position m) + vec_x v * dt,
                              vec_y = vec_y (position m) + vec_y v * dt,
                              vec_z = vec_z (position m) + vec_z v * dt\<rparr>\<rparr>))"
    by (simp add: integrate_def integrateMass_def Let_def)
  have B: "snd (update e (Some dt)) =
        clearForces (handleCollisions (applyConstraints (integrate (applyForces e) dt)))"
    if "enabled e \<and> 0 < dt"
    using that by (simp add: update_def Let_def)
  have C: "(let e' = snd (update e (Some dt)); m' = hd (masses e')
       in freeFalling e' m' \<and> gravity e' = gravity e \<and> damping e' = damping e \<and>
          - vec_y (velocity m') = damping e * (- vec_y (velocity m) + gravity e * dt) \<and>
          vec_y (position m') = vec_y (position m) + vec_y (velocity m') * dt)"
    if h: "freeFalling e m \<and> 0 < dt \<and>
      - 50 \<le> vec_y (position m) + damping e * (vec_y (velocity m) - gravity e * dt) * dt"
  proof -
    from h have f: "enabled e" "wf_engine e" "masses e = [m]" "springs e = []" "\<not> fixed m"
      "mass m \<noteq> 0" "force m = zero3" and dt: "0 < dt"
      and gr: "- 50 \<le> vec_y (position m) + damping e * (vec_y (velocity m) - gravity e * dt) * dt"
      by (simp_all add: freeFalling_def)
    note en = f(1) and wf = f(2) and ms = f(3) and sp = f(4) and nf = f(5) and mz = f(6)
      and fz = f(7)
    have s: "masses (snd (update e (Some dt))) =
     [m\<lparr>velocity := \<lparr>vec_x = damping e * vec_x (velocity m),
                      vec_y = damping e * (vec_y (velocity m) - gravity e * dt),
                      vec_z = damping e * vec_z (velocity m)\<rparr>,
        position := \<lparr>vec_x = vec_x (position m) + damping e * vec_x (velocity m) * dt,
                      vec_y = vec_y (position m) +
                        damping e * (vec_y (velocity m) - gravity e * dt) * dt,
                      vec_z = vec_z (position m) + damping e * vec_z (velocity m) * dt\<rparr>,
        force := zero3\<rparr>]"
    proof -
      let ?g = "m\<lparr>force := \<lparr>vec_x = 0, vec_y = - (mass m * gravity e), vec_z = 0\<rparr>\<rparr>"
      let ?V = "\<lparr>vec_x = damping e * vec_x (velocity m),
                 vec_y = damping e * (vec_y (velocity m) - gravity e * dt),
                 vec_z = damping e * vec_z (velocity m)\<rparr>"
      let ?P = "\<lparr>vec_x = vec_x (position m) + damping e * vec_x (velocity m) * dt,
                 vec_y = vec_y (position m) + damping e * (vec_y (velocity m) - gravity e * dt) * dt,
                 vec_z = vec_z (position m) + damping e * vec_z (velocity m) * dt\<rparr>"
      let ?i = "?g\<lparr>velocity := ?V, position := ?P\<rparr>"
      have a1: "masses (applyForces e) = [?g]"
        using nf fz by (simp add: applyForces_def ms sp applyGravity_def zero3_def)
      have d1: "damping (applyForces e) = damping e" "constraints (applyForces e) = constraints e"
        by (simp_all add: applyForces_def)
      have a2: "masses (integrate (applyForces e) dt) = [?i]"
        using nf mz by (simp add: integrate_def a1 d1 integrateMass_def Let_def algebra_simps)
      have cs: "list_all (\<lambda>c. case c of Distance i j d k \<Rightarrow> i < 1 \<and> j < 1 | Collision i g r \<Rightarrow> i < 1)
          (constraints (integrate (applyForces e) dt))"
        using wf by (simp add: wf_engine_def ms integrate_def d1 cong: constraint.case_cong)
      have a3: "masses (applyConstraints (integrate (applyForces e) dt)) = [?i]"
        by (simp add: applyConstraints_def constraintLoop_three a2 constraintPass_single[OF cs])
      have a4: "masses (handleCollisions (applyConstraints (integrate (applyForces e) dt))) = [?i]"
        using gr by (simp add: handleCollisions_def a3 collideMass_def)
      have a5: "masses (clearForces (handleCollisions (applyConstraints (integrate (applyForces e) dt)))) =
          [?i\<lparr>force := zero3\<rparr>]"
        by (simp add: clearForces_def a4 zero3_def)
      show ?thesis
        using en dt a5 by (simp add: update_def Let_def)
    qed
    show ?thesis
      unfolding Let_def freeFalling_def s
      using f by (simp add: wf_engine_update algebra_simps)
  qed
  have D: "(let e' = snd (update e (Some dt)); m' = hd (masses e')
       in freeFalling e' m' \<and> gravity e' = gravity e \<and> damping e' = damping e \<and>
          vec_y (position m') = - 50 \<and>
          vec_y (velocity m') = - 0.7 * (damping e * (vec_y (velocity m) - gravity e * dt)) \<and>
          vec_x (velocity m') = 0.9 * (damping e * vec_x (velocity m)) \<and>
          vec_z (velocity m') = 0.9 * (damping e * vec_z (velocity m)) \<and>
          vec_x (position m') = vec_x (position m) + damping e * vec_x (velocity m) * dt \<and>
          vec_z (position m') = vec_z (position m) + damping e * vec_z (velocity m) * dt)"
    if h: "freeFalling e m \<and> 0 < dt \<and>
    vec_y (position m) + damping e * (vec_y (velocity m) - gravity e * dt) * dt < - 50"
  proof -
    from h have f: "enabled e" "wf_engine e" "masses e = [m]" "springs e = []" "\<not> fixed m"
      "mass m \<noteq> 0" "force m = zero3" and dt: "0 < dt"
      and gr: "vec_y (position m) + damping e * (vec_y (velocity m) - gravity e * dt) * dt < - 50"
      by (simp_all add: freeFalling_def)
    note en = f(1) and wf = f(2) and ms = f(3) and sp = f(4) and nf = f(5) and mz = f(6)
      and fz = f(7)
    have s: "masses (snd (update e (Some dt))) =
     [m\<lparr>velocity := \<lparr>vec_x = 0.9 * (damping e * vec_x (velocity m)),
                      vec_y = - 0.7 * (damping e * (vec_y (velocity m) - gravity e * dt)),
                      vec_z = 0.9 * (damping e * vec_z (velocity m))\<rparr>,
        position := \<lparr>vec_x = vec_x (position m) + damping e * vec_x (velocity m) * dt,
                      vec_y = - 50,
                      vec_z = vec_z (position m) + damping e * vec_z (velocity m) * dt\<rparr>,
        force := zero3\<rparr>]"
    proof -
      let ?g = "m\<lparr>force := \<lparr>vec_x = 0, vec_y = - (mass m * gravity e), vec_z = 0\<rparr>\<rparr>"
      let ?V = "\<lparr>vec_x = damping e * vec_x (velocity m),
                 vec_y = damping e * (vec_y (velocity m) - gravity e * dt),
                 vec_z = damping e * vec_z (velocity m)\<rparr>"
      let ?P = "\<lparr>vec_x = vec_x (position m) + damping e * vec_x (velocity m) * dt,
                 vec_y = vec_y (position m) + damping e * (vec_y (velocity m) - gravity e * dt) * dt,
                 vec_z = vec_z (position m) + damping e * vec_z (velocity m) * dt\<rparr>"
      let ?i = "?g\<lparr>velocity := ?V, position := ?P\<rparr>"
      let ?c = "?i\<lparr>position := \<lparr>vec_x = vec_x (position m) + damping e * vec_x (velocity m) * dt,
                          vec_y = - 50,
                          vec_z = vec_z (position m) + damping e * vec_z (velocity m) * dt\<rparr>,
                    velocity := \<lparr>vec_x = 0.9 * (damping e * vec_x (velocity m)),
                          vec_y = - 0.7 * (damping e * (vec_y (velocity m) - gravity e * dt)),
                          vec_z = 0.9 * (damping e * vec_z (velocity m))\<rparr>\<rparr>"
      have a1: "masses (applyForces e) = [?g]"
        using nf fz by (simp add: applyForces_def ms sp applyGravity_def zero3_def)
      have d1: "damping (applyForces e) = damping e" "constraints (applyForces e) = constraints e"
        by (simp_all add: applyForces_def)
      have a2: "masses (integrate (applyForces e) dt) = [?i]"
        using nf mz by (simp add: integrate_def a1 d1 integrateMass_def Let_def algebra_simps)
      have cs: "list_all (\<lambda>c. case c of Distance i j d k \<Rightarrow> i < 1 \<and> j < 1 | Collision i g r \<Rightarrow> i < 1)
          (constraints (integrate (applyForces e) dt))"
        using wf by (simp add: wf_engine_def ms integrate_def d1 cong: constraint.case_cong)
      have a3: "masses (applyConstraints (integrate (applyForces e) dt)) = [?i]"
        by (simp add: applyConstraints_def constraintLoop_three a2 constraintPass_single[OF cs])
      have a4: "masses (handleCollisions (applyConstraints (integrate (applyForces e) dt))) = [?c]"
        using gr nf by (simp add: handleCollisions_def a3 collideMass_def)
      have a5: "masses (clearForces (handleCollisions (applyConstraints (integrate (applyForces e) dt)))) =
          [?c\<lparr>force := zero3\<rparr>]"
        by (simp add: clearForces_def a4 zero3_def)
      show ?thesis
        using en dt a5 by (simp add: update_def Let_def)
    qed
    show ?thesis
      unfolding Let_def freeFalling_def s
      using f by (simp add: wf_engine_update)
  qed
  from A B C D show ?thesis
    by blast
qed

lemma dropEngine_eval:
  "dropEngine =
     \<lparr>gravity = 49 / 5, damping = 19 / 20, stiffness = 3 / 20, enabled = True,
      timeStep = 1 / 60, springs = [],
      masses =
        [\<lparr>m_id = ''P'', position = \<lparr>vec_x = 0, vec_y = 0, vec_z = 0\<rparr>,
          originalPosition = \<lparr>vec_x = 0, vec_y = 0, vec_z = 0\<rparr>,
          velocity = \<lparr>vec_x = 0, vec_y = 0, vec_z = 0\<rparr>,
          force = \<lparr>vec_x = 0, vec_y = 0, vec_z = 0\<rparr>, mass = 10, fixed = False,
          m_group = ''torso'', m_type = ''surface''\<rparr>],
      constraints = [],
      originalPositions = [''P'' \<mapsto> \<lparr>vec_x = 0, vec_y = 0, vec_z = 0\<rparr>]\<rparr>"
  by (simp add: dropEngine_def fallMesh_def enable_def parse_eval)

theorem integration_law_and_free_fall_witness:
  "freeFalling dropEngine (hd (masses dropEngine)) \<and> (0::real) < 1 \<and>
   gravity dropEngine = 49 / 5 \<and> damping dropEngine = 19 / 20 \<and>
   vec_y (velocity (hd (masses dropEngine))) = 0 \<and> vec_y (position (hd (masses dropEngine))) = 0 \<and>
   - vec_y (velocity (hd (masses (snd (update dropEngine (Some 1)))))) = 931 / 100 \<and>
   vec_y (position (hd (masses (snd (update dropEngine (Some 1)))))) = - (931 / 100) \<and>
   freeFalling (snd (update dropEngine (Some 1))) (hd (masses (snd (update dropEngine (Some 1))))) \<and>
   (0::nat) < length (masses (applyForce dropEngine ''P'' force123)) \<and>
   \<not> fixed (masses (applyForce dropEngine ''P'' force123) ! 0) \<and>
   mass (masses (applyForce dropEngine ''P'' force123) ! 0) = 10 \<and>
   force (masses (applyForce dropEngine ''P'' force123) ! 0) = force123 \<and>
   velocity (masses (integrate (applyForce dropEngine ''P'' force123) 1) ! 0) =
     \<lparr>vec_x = 19 / 200, vec_y = 19 / 100, vec_z = 57 / 200\<rparr> \<and>
   position (masses (integrate (applyForce dropEngine ''P'' force123) 1) ! 0) =
     \<lparr>vec_x = 19 / 200, vec_y = 19 / 100, vec_z = 57 / 200\<rparr> \<and>
   enabled dropEngine \<and>
   snd (update dropEngine (Some 1)) =
     clearForces (handleCollisions (applyConstraints (integrate (applyForces dropEngine) 1))) \<and>
   freeFalling fallEngine (hd (masses fallEngine)) \<and> (0::real) < 8 \<and>
   gravity fallEngine = 1 \<and> damping fallEngine = 1 \<and>
   vec_y (velocity (hd (masses fallEngine))) = 0 \<and> vec_y (position (hd (masses fallEngine))) = 0 \<and>
   vec_y (position (hd (masses (snd (update fallEngine (Some 8)))))) = - 50 \<and>
   vec_y (velocity (hd (masses (snd (update fallEngine (Some 8)))))) = 28 / 5 \<and>
   freeFalling (snd (update fallEngine (Some 8))) (hd (masses (snd (update fallEngine (Some 8)))))"
proof -
  let ?m = "hd (masses dropEngine)"
  let ?f = "applyForce dropEngine ''P'' force123"
  have a: "freeFalling dropEngine ?m"
    by (simp add: freeFalling_def wf_engine_def dropEngine_eval zero3_def)
  have v: "gravity dropEngine = 49 / 5" "damping dropEngine = 19 / 20"
    "vec_y (velocity ?m) = 0" "vec_y (position ?m) = 0"
    by (simp_all add: dropEngine_eval)
  have g: "- 50 \<le> vec_y (position ?m) +
      damping dropEngine * (vec_y (velocity ?m) - gravity dropEngine * 1) * 1"
    unfolding v by simp
  note t = integration_law_and_free_fall[of dropEngine 1 ?m]
  from t a g have "let e' = snd (update dropEngine (Some 1)); m' = hd (masses e')
       in freeFalling e' m' \<and> gravity e' = gravity dropEngine \<and> damping e' = damping dropEngine \<and>
          - vec_y (velocity m') = damping dropEngine * (- vec_y (velocity ?m) + gravity dropEngine * 1) \<and>
          vec_y (position m') = vec_y (position ?m) + vec_y (velocity m') * 1"
    by simp
  then have b: "freeFalling (snd (update dropEngine (Some 1))) (hd (masses (snd (update dropEngine (Some 1)))))"
    "- vec_y (velocity (hd (masses (snd (update dropEngine (Some 1)))))) = 931 / 100"
    "vec_y (position (hd (masses (snd (update dropEngine (Some 1)))))) = - (931 / 100)"
    unfolding Let_def v by simp_all
  have f: "masses ?f =
    [\<lparr>m_id = ''P'', position = \<lparr>vec_x = 0, vec_y = 0, vec_z = 0\<rparr>,
          originalPosition = \<lparr>vec_x = 0, vec_y = 0, vec_z = 0\<rparr>,
          velocity = \<lparr>vec_x = 0, vec_y = 0, vec_z = 0\<rparr>,
          force = \<lparr>vec_x = 1, vec_y = 2, vec_z = 3\<rparr>, mass = 10, fixed = False,
          m_group = ''torso'', m_type = ''surface''\<rparr>]" "damping ?f = 19 / 20"
    by (simp_all add: applyForce_def dropEngine_eval force123_def)
  then have l: "0 < length (masses ?f)" by simp
  have nf: "\<not> fixed (masses ?f ! 0) \<and> mass (masses ?f ! 0) \<noteq> 0"
    unfolding f by simp
  from integration_law_and_free_fall[of ?f 1] l nf
  have "masses (integrate ?f 1) ! 0 =
        (let m = masses ?f ! 0;
             v = \<lparr>vec_x = (vec_x (velocity m) + vec_x (force m) / mass m * 1) * damping ?f,
                  vec_y = (vec_y (velocity m) + vec_y (force m) / mass m * 1) * damping ?f,
                  vec_z = (vec_z (velocity m) + vec_z (force m) / mass m * 1) * damping ?f\<rparr>
         in m\<lparr>velocity := v,
              position := \<lparr>vec_x = vec_x (position m) + vec_x v * 1,
                           vec_y = vec_y (position m) + vec_y v * 1,
                           vec_z = vec_z (position m) + vec_z v * 1\<rparr>\<rparr>)"
    by blast
  then have c: "velocity (masses (integrate ?f 1) ! 0) =
     \<lparr>vec_x = 19 / 200, vec_y = 19 / 100, vec_z = 57 / 200\<rparr>"
    "position (masses (integrate ?f 1) ! 0) =
     \<lparr>vec_x = 19 / 200, vec_y = 19 / 100, vec_z = 57 / 200\<rparr>"
    unfolding f Let_def by simp_all
  have d: "force (masses ?f ! 0) = force123"
    unfolding f by (simp add: force123_def)
  have nf': "\<not> fixed (masses ?f ! 0)" "mass (masses ?f ! 0) = 10"
    unfolding f by simp_all
  have en: "enabled dropEngine \<and> (0::real) < 1"
    by (simp add: dropEngine_eval)
  with t have lk: "snd (update dropEngine (Some 1)) =
     clearForces (handleCollisions (applyConstraints (integrate (applyForces dropEngine) 1)))"
    by blast
  let ?n = "hd (masses fallEngine)"
  have a': "freeFalling fallEngine ?n"
    by (simp add: freeFalling_def wf_engine_def fallEngine_eval zero3_def)
  have v': "gravity fallEngine = 1" "damping fallEngine = 1"
    "vec_y (velocity ?n) = 0" "vec_y (position ?n) = 0"
    by (simp_all add: fallEngine_eval)
  have g': "vec_y (position ?n) +
      damping fallEngine * (vec_y (velocity ?n) - gravity fallEngine * 8) * 8 < - 50"
    unfolding v' by simp
  from integration_law_and_free_fall[of fallEngine 8 ?n] a' g'
  have "let e' = snd (update fallEngine (Some 8)); m' = hd (masses e')
       in freeFalling e' m' \<and> gravity e' = gravity fallEngine \<and> damping e' = damping fallEngine \<and>
          vec_y (position m') = - 50 \<and>
          vec_y (velocity m') =
            - 0.7 * (damping fallEngine * (vec_y (velocity ?n) - gravity fallEngine * 8)) \<and>
          vec_x (velocity m') = 0.9 * (damping fallEngine * vec_x (velocity ?n)) \<and>
          vec_z (velocity m') = 0.9 * (damping fallEngine * vec_z (velocity ?n)) \<and>
          vec_x (position m') = vec_x (position ?n) + damping fallEngine * vec_x (velocity ?n) * 8 \<and>
          vec_z (position m') = vec_z (position ?n) + damping fallEngine * vec_z (velocity ?n) * 8"
    by simp
  then have b': "freeFalling (snd (update fallEngine (Some 8))) (hd (masses (snd (update fallEngine (Some 8)))))"
    "vec_y (position (hd (masses (snd (update fallEngine (Some 8)))))) = - 50"
    "vec_y (velocity (hd (masses (snd (update fallEngine (Some 8)))))) = 28 / 5"
    unfolding Let_def v' by simp_all
  from a v b l c d nf' en lk a' v' b' show ?thesis
    by simp
qed

end
